theory Spec2Isabelle
  imports Complex_Main
begin

section \<open>The teacher controller of school-api\<close>

text \<open>
  The source is \<^verbatim>\<open>src/controllers/teacher.controller.js\<close>: five asynchronous
  Express handlers (\<^verbatim>\<open>createTeacher\<close>, \<^verbatim>\<open>getAllTeachers\<close>,
  \<^verbatim>\<open>getTeacherById\<close>, \<^verbatim>\<open>updateTeacher\<close>, \<^verbatim>\<open>deleteTeacher\<close>) over the
  Sequelize model \<^verbatim>\<open>db.Teacher\<close>. Each handler is embedded as a function that
  passes a world (the database behind the gateway, the responses written to
  \<^verbatim>\<open>res\<close>, the gateway calls issued so far) and returns how its promise settles.
\<close>

subsection \<open>JavaScript values used by the handlers\<close>

text \<open>
  A JavaScript string is a \<^typ>\<open>string\<close>, read as its UTF-8 bytes. A Number is an
  IEEE 754 double. Every Number the handlers hold is an integer, an infinity or
  \<^verbatim>\<open>NaN\<close>: \<open>Num n\<close> is the double whose value is the integer \<open>n\<close>, and \<open>+0\<close> and
  \<open>-0\<close> are both \<open>Num 0\<close> (both are falsy and both serialise as \<^verbatim>\<open>0\<close>). The one
  Number that is not an integer, the quotient \<^verbatim>\<open>total / limit\<close>, is rounded up by
  \<^verbatim>\<open>Math.ceil\<close> at once.
\<close>

datatype jsnum = NaN | Num int | PosInfinity | NegInfinity

datatype js_error = Error (message: string)

datatype settled = Fulfilled | Rejected js_error

subsection \<open>Rounding to a double\<close>

text \<open>
  The result of an arithmetic operation is the exact result rounded to the nearest
  double, ties to the even significand. \<open>round_half_even\<close> is that rule on the
  integers.
\<close>

definition round_half_even :: "rat \<Rightarrow> int" where
  "round_half_even x =
     (let f = \<lfloor>x\<rfloor>; d = x - of_int f
      in if d < 1 / 2 then f else if 1 / 2 < d then f + 1 else if even f then f else f + 1)"

text \<open>
  The binade of a positive number \<open>x\<close> is the exponent \<open>e\<close> with
  \<open>2 ^ e \<le> x < 2 ^ (e + 1)\<close>, found by halving or doubling.
\<close>

function halvings :: "rat \<Rightarrow> nat" where
  "halvings x = (if 2 \<le> x then Suc (halvings (x / 2)) else 0)"
  by pat_completeness auto
termination
proof (relation "measure (\<lambda>x. nat \<lfloor>x\<rfloor>)")
  show "wf (measure (\<lambda>x. nat \<lfloor>x\<rfloor>))" by simp
next
  fix x :: rat
  assume "2 \<le> x"
  then have "x / 2 \<le> x - 1" by simp
  then have "\<lfloor>x / 2\<rfloor> \<le> \<lfloor>x - 1\<rfloor>" by (rule floor_mono)
  moreover have "2 \<le> \<lfloor>x\<rfloor>" using \<open>2 \<le> x\<close> by (simp add: le_floor_iff)
  ultimately show "(x / 2, x) \<in> measure (\<lambda>x. nat \<lfloor>x\<rfloor>)" by simp
qed

function doublings :: "rat \<Rightarrow> nat" where
  "doublings x = (if 0 < x \<and> x < 1 then Suc (doublings (2 * x)) else 0)"
  by pat_completeness auto
termination
proof (relation "measure (\<lambda>x. nat \<lceil>1 / x\<rceil>)")
  show "wf (measure (\<lambda>x. nat \<lceil>1 / x\<rceil>))" by simp
next
  fix x :: rat
  assume x: "0 < x \<and> x < 1"
  define n where "n = \<lceil>1 / x\<rceil>"
  define m where "m = \<lceil>1 / (2 * x)\<rceil>"
  from x have "1 < 1 / x" by simp
  then have two: "2 \<le> n" unfolding n_def by (simp add: le_ceiling_iff)
  have "1 / x \<le> of_int n" unfolding n_def by (rule le_of_int_ceiling)
  then have "1 / (2 * x) \<le> of_int n / 2" by simp
  also have "\<dots> \<le> of_int (n - 1)" using two by simp
  finally have "m \<le> n - 1" unfolding m_def by (rule ceiling_le)
  with two have "nat m < nat n" by linarith
  then show "(2 * x, x) \<in> measure (\<lambda>x. nat \<lceil>1 / x\<rceil>)"
    by (simp add: m_def n_def)
qed

declare halvings.simps [simp del] doublings.simps [simp del]

definition binade :: "rat \<Rightarrow> int" where
  "binade x = (if 1 \<le> x then int (halvings x) else - int (doublings x))"

text \<open>
  The double nearest to \<open>x\<close>, with the exponent unbounded above: the significand has 53
  bits, so the doubles of the binade \<open>e\<close> are the multiples of \<open>2 ^ (e - 52)\<close>; below
  the smallest normal exponent, -1022, the spacing stays that of the subnormals.
\<close>

definition round_to_double :: "rat \<Rightarrow> rat" where
  "round_to_double x =
     (if x = 0 then 0
      else let e = max (binade \<bar>x\<bar>) (- 1022);
               quantum = 2 powi (e - 52)
           in sgn x * of_int (round_half_even (\<bar>x\<bar> / quantum)) * quantum)"

text \<open>
  The Number for an exact integer result: rounded, and an infinity when the rounded
  magnitude reaches \<open>2 ^ 1024\<close>.
\<close>

definition to_Number :: "int \<Rightarrow> jsnum" where
  "to_Number n =
     (let v = round_to_double (of_int n)
      in if 2 ^ 1024 \<le> \<bar>v\<bar> then (if 0 < n then PosInfinity else NegInfinity)
         else Num \<lfloor>v\<rfloor>)"

text \<open>\<^verbatim>\<open>a - b\<close> and \<^verbatim>\<open>a * b\<close> on Numbers.\<close>

fun js_minus :: "jsnum \<Rightarrow> jsnum \<Rightarrow> jsnum" where
  "js_minus NaN b = NaN"
| "js_minus a NaN = NaN"
| "js_minus (Num a) (Num b) = to_Number (a - b)"
| "js_minus (Num a) PosInfinity = NegInfinity"
| "js_minus (Num a) NegInfinity = PosInfinity"
| "js_minus PosInfinity PosInfinity = NaN"
| "js_minus PosInfinity b = PosInfinity"
| "js_minus NegInfinity NegInfinity = NaN"
| "js_minus NegInfinity b = NegInfinity"

fun js_times :: "jsnum \<Rightarrow> jsnum \<Rightarrow> jsnum" where
  "js_times NaN b = NaN"
| "js_times a NaN = NaN"
| "js_times (Num a) (Num b) = to_Number (a * b)"
| "js_times (Num a) PosInfinity =
     (if a = 0 then NaN else if 0 < a then PosInfinity else NegInfinity)"
| "js_times (Num a) NegInfinity =
     (if a = 0 then NaN else if 0 < a then NegInfinity else PosInfinity)"
| "js_times PosInfinity (Num b) =
     (if b = 0 then NaN else if 0 < b then PosInfinity else NegInfinity)"
| "js_times NegInfinity (Num b) =
     (if b = 0 then NaN else if 0 < b then NegInfinity else PosInfinity)"
| "js_times PosInfinity PosInfinity = PosInfinity"
| "js_times PosInfinity NegInfinity = NegInfinity"
| "js_times NegInfinity PosInfinity = NegInfinity"
| "js_times NegInfinity NegInfinity = PosInfinity"

text \<open>
  \<^verbatim>\<open>Math.ceil(a / b)\<close>: the quotient is rounded to a double first and then rounded up
  to an integer. The handler's divisor is \<^verbatim>\<open>limit\<close>, which is never zero
  (\<^verbatim>\<open>|| 10\<close> replaces a zero); for a zero divisor the equation below is the quotient
  by \<open>+0\<close>.
\<close>

fun Math_ceil_quotient :: "jsnum \<Rightarrow> jsnum \<Rightarrow> jsnum" where
  "Math_ceil_quotient NaN b = NaN"
| "Math_ceil_quotient a NaN = NaN"
| "Math_ceil_quotient (Num a) (Num b) =
     (if b = 0 then (if a = 0 then NaN else if 0 < a then PosInfinity else NegInfinity)
      else let v = round_to_double (of_int a / of_int b)
           in if 2 ^ 1024 \<le> v then PosInfinity
              else if v \<le> - (2 ^ 1024) then NegInfinity
              else Num \<lceil>v\<rceil>)"
| "Math_ceil_quotient (Num a) b = Num 0"
| "Math_ceil_quotient PosInfinity (Num b) = (if 0 \<le> b then PosInfinity else NegInfinity)"
| "Math_ceil_quotient NegInfinity (Num b) = (if 0 \<le> b then NegInfinity else PosInfinity)"
| "Math_ceil_quotient a b = NaN"

subsection \<open>Strings to Numbers\<close>

text \<open>
  \<^verbatim>\<open>StrWhiteSpaceChar\<close> of ECMAScript (white space and line terminators): TAB, LF, VT,
  FF, CR, SP, and beyond ASCII the code points U+00A0, U+1680, U+2000 to U+200A,
  U+2028, U+2029, U+202F, U+205F, U+3000 and U+FEFF, here in UTF-8.
\<close>

definition StrWhiteSpaceChar :: "string list" where
  "StrWhiteSpaceChar =
     [[CHR 0x09], [CHR 0x0A], [CHR 0x0B], [CHR 0x0C], [CHR 0x0D], [CHR 0x20],
      [CHR 0xC2, CHR 0xA0],
      [CHR 0xE1, CHR 0x9A, CHR 0x80],
      [CHR 0xE2, CHR 0x80, CHR 0x80], [CHR 0xE2, CHR 0x80, CHR 0x81],
      [CHR 0xE2, CHR 0x80, CHR 0x82], [CHR 0xE2, CHR 0x80, CHR 0x83],
      [CHR 0xE2, CHR 0x80, CHR 0x84], [CHR 0xE2, CHR 0x80, CHR 0x85],
      [CHR 0xE2, CHR 0x80, CHR 0x86], [CHR 0xE2, CHR 0x80, CHR 0x87],
      [CHR 0xE2, CHR 0x80, CHR 0x88], [CHR 0xE2, CHR 0x80, CHR 0x89],
      [CHR 0xE2, CHR 0x80, CHR 0x8A],
      [CHR 0xE2, CHR 0x80, CHR 0xA8], [CHR 0xE2, CHR 0x80, CHR 0xA9],
      [CHR 0xE2, CHR 0x80, CHR 0xAF],
      [CHR 0xE2, CHR 0x81, CHR 0x9F],
      [CHR 0xE3, CHR 0x80, CHR 0x80],
      [CHR 0xEF, CHR 0xBB, CHR 0xBF]]"

text \<open>The number of bytes of the white space character a string starts with, or 0.\<close>

definition leading_space :: "string \<Rightarrow> nat" where
  "leading_space s =
     (case filter (\<lambda>ws. take (length ws) s = ws) StrWhiteSpaceChar of
        [] \<Rightarrow> 0
      | ws # _ \<Rightarrow> length ws)"

function TrimStart :: "string \<Rightarrow> string" where
  "TrimStart s = (if leading_space s = 0 then s else TrimStart (drop (leading_space s) s))"
  by pat_completeness auto
termination
proof (relation "measure length")
  show "wf (measure length)" by simp
next
  fix s :: string
  assume pos: "leading_space s \<noteq> 0"
  have "s \<noteq> []"
  proof
    assume "s = []"
    then have "leading_space s = 0"
      by (simp add: leading_space_def StrWhiteSpaceChar_def)
    with pos show False by simp
  qed
  with pos show "(drop (leading_space s) s, s) \<in> measure length"
    by simp
qed

text \<open>The digits of radix 10 and 16 and their values.\<close>

definition digit_value :: "char \<Rightarrow> int option" where
  "digit_value c = map_of
     [(CHR ''0'', 0), (CHR ''1'', 1), (CHR ''2'', 2), (CHR ''3'', 3), (CHR ''4'', 4),
      (CHR ''5'', 5), (CHR ''6'', 6), (CHR ''7'', 7), (CHR ''8'', 8), (CHR ''9'', 9),
      (CHR ''a'', 10), (CHR ''b'', 11), (CHR ''c'', 12), (CHR ''d'', 13), (CHR ''e'', 14),
      (CHR ''f'', 15),
      (CHR ''A'', 10), (CHR ''B'', 11), (CHR ''C'', 12), (CHR ''D'', 13), (CHR ''E'', 14),
      (CHR ''F'', 15)] c"

definition is_radix_digit :: "int \<Rightarrow> char \<Rightarrow> bool" where
  "is_radix_digit R c = (case digit_value c of None \<Rightarrow> False | Some v \<Rightarrow> v < R)"

definition radix_value :: "int \<Rightarrow> string \<Rightarrow> int" where
  "radix_value R Z = foldl (\<lambda>acc c. acc * R + the (digit_value c)) 0 Z"

text \<open>
  \<^verbatim>\<open>parseInt(string)\<close> with no radix argument, step by step as in ECMAScript:
  trim leading white space, read a sign, strip a \<^verbatim>\<open>0x\<close>/\<^verbatim>\<open>0X\<close> prefix (radix 16,
  otherwise radix 10), keep the longest prefix of digits. \<open>signed_mathInt\<close> is the
  signed integer those digits denote (\<open>sign \<times> mathInt\<close> in ECMAScript), or \<open>None\<close> when
  there is no digit.
\<close>

definition signed_mathInt :: "string \<Rightarrow> int option" where
  "signed_mathInt inputString =
     (let S = TrimStart inputString;
          sign = (if take 1 S = ''-'' then - 1 else (1::int));
          S = (if take 1 S = ''+'' \<or> take 1 S = ''-'' then drop 1 S else S);
          hex = (take 2 S = ''0x'' \<or> take 2 S = ''0X'');
          R = (if hex then 16 else 10);
          S = (if hex then drop 2 S else S);
          Z = takeWhile (is_radix_digit R) S
      in if Z = [] then None else Some (sign * radix_value R Z))"

text \<open>
  No digit gives \<^verbatim>\<open>NaN\<close>; otherwise the result is the Number for that integer. (For
  more than 20 significant decimal digits ECMAScript also lets an implementation zero the
  digits after the 20th before rounding; V8 rounds the exact integer, as here.)
\<close>

definition parseInt :: "string \<Rightarrow> jsnum" where
  "parseInt inputString =
     (case signed_mathInt inputString of None \<Rightarrow> NaN | Some n \<Rightarrow> to_Number n)"

text \<open>\<^verbatim>\<open>ToString\<close> of a query parameter: a missing one is \<^verbatim>\<open>undefined\<close>.\<close>

definition ToString :: "string option \<Rightarrow> string" where
  "ToString v = (case v of None \<Rightarrow> ''undefined'' | Some s \<Rightarrow> s)"

text \<open>\<^verbatim>\<open>n || d\<close> on Numbers: \<^verbatim>\<open>NaN\<close> and zero are falsy.\<close>

definition or_default :: "jsnum \<Rightarrow> jsnum \<Rightarrow> jsnum" where
  "or_default n d = (if n = NaN \<or> n = Num 0 then d else n)"

text \<open>
  \<^verbatim>\<open>toLowerCase\<close> on the ASCII letters. JavaScript also maps letters beyond ASCII;
  none of those mappings yields a comma or one of the letters of \<^verbatim>\<open>course\<close>, so the
  tokens compared below are the same.
\<close>

definition lower_char :: "char \<Rightarrow> char" where
  "lower_char c =
     (if 65 \<le> (of_char c :: nat) \<and> (of_char c :: nat) \<le> 90
      then char_of ((of_char c :: nat) + 32) else c)"

definition toLowerCase :: "string \<Rightarrow> string" where
  "toLowerCase s = map lower_char s"

text \<open>\<^verbatim>\<open>s.split(',')\<close>: the pieces between the separators, empty pieces included.\<close>

fun split :: "char \<Rightarrow> string \<Rightarrow> string list" where
  "split sep [] = [[]]"
| "split sep (c # cs) =
     (if c = sep then [] # split sep cs
      else (case split sep cs of [] \<Rightarrow> [[c]] | piece # pieces \<Rightarrow> (c # piece) # pieces))"

subsection \<open>Requests and responses\<close>

text \<open>
  \<^verbatim>\<open>req.query\<close>: the four parameters the List handler reads, each a string or
  missing, as the handler's documentation types them
  (\<^verbatim>\<open>@param {string} [req.query.limit=10]\<close> and the three after it). A key
  repeated in the query string, which Express parses to an array, is outside this type.
\<close>

record query =
  query_limit :: "string option"
  query_page :: "string option"
  query_sort :: "string option"
  query_populate :: "string option"

text \<open>
  \<^verbatim>\<open>req\<close>: the path parameter \<^verbatim>\<open>req.params.id\<close>, the query and the parsed JSON
  body. No handler looks into the body, so its type is a parameter.
\<close>

record 'b request =
  params_id :: string
  query :: query
  body :: 'b

record meta =
  meta_total :: jsnum
  meta_page :: jsnum
  meta_totalPages :: jsnum

text \<open>
  What \<^verbatim>\<open>res.json\<close> is given: an entity, \<^verbatim>\<open>{ error: ... }\<close>,
  \<^verbatim>\<open>{ message: ... }\<close>, or \<^verbatim>\<open>{ meta: ..., data: ... }\<close>.
\<close>

datatype 'e json =
    Entity 'e
  | Error_body string
  | Message_body string
  | Page meta "'e list"

record 'e response =
  status :: nat
  json :: "'e json"

subsection \<open>The persistence gateway\<close>

datatype direction = ASC | DESC

datatype model_ref = Course

text \<open>The options object of \<^verbatim>\<open>findAll\<close>; an element of \<open>include\<close> is \<^verbatim>\<open>{ model: db.Course }\<close>.\<close>

record find_options =
  fo_limit :: jsnum
  fo_offset :: jsnum
  fo_order :: "(string \<times> direction) list"
  fo_include :: "model_ref list"

text \<open>
  \<^verbatim>\<open>db\<close> is imported from \<^verbatim>\<open>../models/index.js\<close>, which is not among the
  sources, so the gateway is a parameter of every handler: the six operations the
  handlers call, over a database of any type. An operation that throws returns the
  error. \<^verbatim>\<open>count\<close>, \<^verbatim>\<open>findAll\<close> and \<^verbatim>\<open>findByPk\<close> read the database;
  \<^verbatim>\<open>create\<close>, \<^verbatim>\<open>update\<close> and \<^verbatim>\<open>destroy\<close> also return the database they leave.
  \<^verbatim>\<open>findByPk\<close> returns \<open>None\<close> for \<^verbatim>\<open>null\<close>; its second argument is the
  \<^verbatim>\<open>include\<close> option, when given. \<^verbatim>\<open>teacher.update\<close> returns the instance as the
  call leaves it: the source passes that same object to \<^verbatim>\<open>res.json\<close>.
\<close>

record ('b, 'e, 'db) gateway =
  Teacher_create :: "'b \<Rightarrow> 'db \<Rightarrow> (js_error + 'e) \<times> 'db"
  Teacher_count :: "'db \<Rightarrow> js_error + jsnum"
  Teacher_findAll :: "find_options \<Rightarrow> 'db \<Rightarrow> js_error + 'e list"
  Teacher_findByPk :: "string \<Rightarrow> model_ref option \<Rightarrow> 'db \<Rightarrow> js_error + 'e option"
  teacher_update :: "'e \<Rightarrow> 'b \<Rightarrow> 'db \<Rightarrow> (js_error + 'e) \<times> 'db"
  teacher_destroy :: "'e \<Rightarrow> 'db \<Rightarrow> (js_error + unit) \<times> 'db"

text \<open>The gateway calls a handler can issue, with their arguments.\<close>

datatype ('b, 'e) gateway_call =
    Create 'b
  | Count
  | FindAll find_options
  | FindByPk string "model_ref option"
  | Update 'e 'b
  | Destroy 'e

text \<open>
  The world a handler runs in: the database, the responses written to \<^verbatim>\<open>res\<close> (in
  order), and the gateway calls issued (in order).
\<close>

record ('b, 'e, 'db) world =
  database :: 'db
  sent :: "'e response list"
  issued :: "('b, 'e) gateway_call list"

definition issue :: "('b, 'e) gateway_call \<Rightarrow> ('b, 'e, 'db) world \<Rightarrow> ('b, 'e, 'db) world" where
  "issue c w = w\<lparr>issued := issued w @ [c]\<rparr>"

text \<open>\<^verbatim>\<open>res.status(n).json(j)\<close>; \<^verbatim>\<open>res.json(j)\<close> is the same with status 200.\<close>

definition res_status_json ::
  "nat \<Rightarrow> 'e json \<Rightarrow> ('b, 'e, 'db) world \<Rightarrow> ('b, 'e, 'db) world" where
  "res_status_json n j w = w\<lparr>sent := sent w @ [\<lparr>status = n, json = j\<rparr>]\<rparr>"

definition res_json :: "'e json \<Rightarrow> ('b, 'e, 'db) world \<Rightarrow> ('b, 'e, 'db) world" where
  "res_json j w = res_status_json 200 j w"

text \<open>The awaited gateway calls: each is recorded, and a mutating one replaces the database.\<close>

definition await_create ::
  "('b, 'e, 'db) gateway \<Rightarrow> 'b \<Rightarrow> ('b, 'e, 'db) world \<Rightarrow> (js_error + 'e) \<times> ('b, 'e, 'db) world" where
  "await_create db b w =
     (case Teacher_create db b (database w) of
        (r, d) \<Rightarrow> (r, issue (Create b) (w\<lparr>database := d\<rparr>)))"

definition await_count ::
  "('b, 'e, 'db) gateway \<Rightarrow> ('b, 'e, 'db) world \<Rightarrow> (js_error + jsnum) \<times> ('b, 'e, 'db) world" where
  "await_count db w = (Teacher_count db (database w), issue Count w)"

definition await_findAll ::
  "('b, 'e, 'db) gateway \<Rightarrow> find_options \<Rightarrow> ('b, 'e, 'db) world
     \<Rightarrow> (js_error + 'e list) \<times> ('b, 'e, 'db) world" where
  "await_findAll db opts w = (Teacher_findAll db opts (database w), issue (FindAll opts) w)"

definition await_findByPk ::
  "('b, 'e, 'db) gateway \<Rightarrow> string \<Rightarrow> model_ref option \<Rightarrow> ('b, 'e, 'db) world
     \<Rightarrow> (js_error + 'e option) \<times> ('b, 'e, 'db) world" where
  "await_findByPk db k inc w =
     (Teacher_findByPk db k inc (database w), issue (FindByPk k inc) w)"

definition await_update ::
  "('b, 'e, 'db) gateway \<Rightarrow> 'e \<Rightarrow> 'b \<Rightarrow> ('b, 'e, 'db) world
     \<Rightarrow> (js_error + 'e) \<times> ('b, 'e, 'db) world" where
  "await_update db teacher b w =
     (case teacher_update db teacher b (database w) of
        (r, d) \<Rightarrow> (r, issue (Update teacher b) (w\<lparr>database := d\<rparr>)))"

definition await_destroy ::
  "('b, 'e, 'db) gateway \<Rightarrow> 'e \<Rightarrow> ('b, 'e, 'db) world
     \<Rightarrow> (js_error + unit) \<times> ('b, 'e, 'db) world" where
  "await_destroy db teacher w =
     (case teacher_destroy db teacher (database w) of
        (r, d) \<Rightarrow> (r, issue (Destroy teacher) (w\<lparr>database := d\<rparr>)))"

subsection \<open>The handlers\<close>

text \<open>
  Each handler returns how its promise settles and the world it leaves. A
  \<^verbatim>\<open>catch\<close> block is the \<open>Inl\<close> branch of the calls inside its \<^verbatim>\<open>try\<close>; a call
  outside any \<^verbatim>\<open>try\<close> that throws rejects the promise.
\<close>

definition createTeacher ::
  "('b, 'e, 'db) gateway \<Rightarrow> 'b request \<Rightarrow> ('b, 'e, 'db) world \<Rightarrow> settled \<times> ('b, 'e, 'db) world" where
  "createTeacher db req w =
     (case await_create db (body req) w of
        (Inr teacher, w1) \<Rightarrow> (Fulfilled, res_status_json 201 (Entity teacher) w1)
      | (Inl err, w1) \<Rightarrow> (Fulfilled, res_status_json 500 (Error_body (message err)) w1))"

text \<open>The four constants \<^verbatim>\<open>getAllTeachers\<close> computes from the query before any call.\<close>

definition list_limit :: "query \<Rightarrow> jsnum" where
  "list_limit q = or_default (parseInt (ToString (query_limit q))) (Num 10)"

definition list_page :: "query \<Rightarrow> jsnum" where
  "list_page q = or_default (parseInt (ToString (query_page q))) (Num 1)"

definition list_sort :: "query \<Rightarrow> direction" where
  "list_sort q = (if query_sort q = Some ''desc'' then DESC else ASC)"

definition list_populate :: "query \<Rightarrow> string" where
  "list_populate q =
     (case query_populate q of
        None \<Rightarrow> []
      | Some s \<Rightarrow> if s = [] then [] else toLowerCase s)"

text \<open>
  The \<open>include\<close> option: \<^verbatim>\<open>split(',')\<close>, then \<^verbatim>\<open>map\<close> to the Course model or
  \<^verbatim>\<open>null\<close>, then \<^verbatim>\<open>filter(Boolean)\<close>.
\<close>

definition list_include :: "string \<Rightarrow> model_ref list" where
  "list_include populate =
     (if populate = [] then []
      else List.map_filter (\<lambda>x. x)
             (map (\<lambda>model. if model = ''course'' then Some Course else None)
                (split (CHR '','') populate)))"

definition list_options :: "query \<Rightarrow> find_options" where
  "list_options q =
     \<lparr>fo_limit = list_limit q,
      fo_offset = js_times (js_minus (list_page q) (Num 1)) (list_limit q),
      fo_order = [(''id'', list_sort q)],
      fo_include = list_include (list_populate q)\<rparr>"

definition getAllTeachers ::
  "('b, 'e, 'db) gateway \<Rightarrow> 'b request \<Rightarrow> ('b, 'e, 'db) world \<Rightarrow> settled \<times> ('b, 'e, 'db) world" where
  "getAllTeachers db req w =
     (let limit = list_limit (query req);
          page = list_page (query req)
      in case await_count db w of
           (Inl err, w1) \<Rightarrow> (Rejected err, w1)
         | (Inr total', w1) \<Rightarrow>
             (case await_findAll db (list_options (query req)) w1 of
                (Inr teachers, w2) \<Rightarrow>
                  (Fulfilled,
                   res_json (Page \<lparr>meta_total = total', meta_page = page,
                                   meta_totalPages = Math_ceil_quotient total' limit\<rparr>
                               teachers) w2)
              | (Inl err, w2) \<Rightarrow>
                  (Fulfilled, res_status_json 500 (Error_body (message err)) w2)))"

definition getTeacherById ::
  "('b, 'e, 'db) gateway \<Rightarrow> 'b request \<Rightarrow> ('b, 'e, 'db) world \<Rightarrow> settled \<times> ('b, 'e, 'db) world" where
  "getTeacherById db req w =
     (case await_findByPk db (params_id req) (Some Course) w of
        (Inr None, w1) \<Rightarrow> (Fulfilled, res_status_json 404 (Message_body ''Not found'') w1)
      | (Inr (Some teacher), w1) \<Rightarrow> (Fulfilled, res_json (Entity teacher) w1)
      | (Inl err, w1) \<Rightarrow> (Fulfilled, res_status_json 500 (Error_body (message err)) w1))"

definition updateTeacher ::
  "('b, 'e, 'db) gateway \<Rightarrow> 'b request \<Rightarrow> ('b, 'e, 'db) world \<Rightarrow> settled \<times> ('b, 'e, 'db) world" where
  "updateTeacher db req w =
     (case await_findByPk db (params_id req) None w of
        (Inr None, w1) \<Rightarrow> (Fulfilled, res_status_json 404 (Message_body ''Not found'') w1)
      | (Inr (Some teacher), w1) \<Rightarrow>
          (case await_update db teacher (body req) w1 of
             (Inr teacher', w2) \<Rightarrow> (Fulfilled, res_json (Entity teacher') w2)
           | (Inl err, w2) \<Rightarrow> (Fulfilled, res_status_json 500 (Error_body (message err)) w2))
      | (Inl err, w1) \<Rightarrow> (Fulfilled, res_status_json 500 (Error_body (message err)) w1))"

definition deleteTeacher ::
  "('b, 'e, 'db) gateway \<Rightarrow> 'b request \<Rightarrow> ('b, 'e, 'db) world \<Rightarrow> settled \<times> ('b, 'e, 'db) world" where
  "deleteTeacher db req w =
     (case await_findByPk db (params_id req) None w of
        (Inr None, w1) \<Rightarrow> (Fulfilled, res_status_json 404 (Message_body ''Not found'') w1)
      | (Inr (Some teacher), w1) \<Rightarrow>
          (case await_destroy db teacher w1 of
             (Inr u, w2) \<Rightarrow> (Fulfilled, res_json (Message_body ''Deleted'') w2)
           | (Inl err, w2) \<Rightarrow> (Fulfilled, res_status_json 500 (Error_body (message err)) w2))
      | (Inl err, w1) \<Rightarrow> (Fulfilled, res_status_json 500 (Error_body (message err)) w1))"

subsection \<open>An in-memory gateway\<close>

text \<open>
  The handlers above are defined for any gateway. What happens to the stored records
  themselves (which fields an update changes, that a destroyed record is gone, how many
  rows a page holds) is decided by the gateway; those properties are proved on the
  gateway below, written from sections 3, 4.1 and 6 of the specification.
\<close>

text \<open>
  Modelled from the spec: the JSON body the missing gateway is given, an object of
  string-valued fields (\<open>name\<close>, \<open>department\<close> and any extra ones), looked up
  with \<open>map_of\<close>.
\<close>

type_synonym json_object = "(string \<times> string) list"

text \<open>
  Modelled from the spec: the Teacher entity of the missing \<^verbatim>\<open>models/index.js\<close>
  (section 3): the generated integer key, \<open>name\<close>, \<open>department\<close>, and the titles of
  its courses when the query included the Course association.
\<close>

record teacher =
  teacher_id :: int
  teacher_name :: string
  teacher_department :: string
  teacher_courses :: "string list option"

text \<open>
  Modelled from the spec: the tables behind the missing gateway: the Teacher rows in
  insertion order, the next key to generate, and the Course rows as pairs of the owning
  teacher's key and a title (the other fields of a Course are opaque to the controller).
\<close>

record store =
  teacher_rows :: "teacher list"
  next_id :: int
  course_rows :: "(int \<times> string) list"

text \<open>
  Modelled from the spec: the eager loading of \<open>Populate\<close> (glossary), which the missing
  \<^verbatim>\<open>models/index.js\<close> and Sequelize perform: the courses of a teacher are attached
  when the Course association is included.
\<close>

definition with_courses :: "model_ref list \<Rightarrow> store \<Rightarrow> teacher \<Rightarrow> teacher" where
  "with_courses inc d t =
     (if Course \<in> set inc
      then t\<lparr>teacher_courses :=
               Some (map snd (filter (\<lambda>c. fst c = teacher_id t) (course_rows d)))\<rparr>
      else t)"

text \<open>
  Modelled from the spec: \<open>create(fields) -> T | throws\<close> of the missing gateway.
  \<open>name\<close> and \<open>department\<close> are required; the key is generated by the gateway and
  other fields of the body are not columns.
\<close>

definition mem_create :: "json_object \<Rightarrow> store \<Rightarrow> (js_error + teacher) \<times> store" where
  "mem_create b d =
     (case (map_of b ''name'', map_of b ''department'') of
        (Some n, Some dep) \<Rightarrow>
          (let t = \<lparr>teacher_id = next_id d, teacher_name = n, teacher_department = dep,
                    teacher_courses = None\<rparr>
           in (Inr t, d\<lparr>teacher_rows := teacher_rows d @ [t], next_id := next_id d + 1\<rparr>))
      | _ \<Rightarrow> (Inl (Error ''notNull Violation''), d))"

text \<open>Modelled from the spec: \<open>count() -> integer\<close> of the missing gateway, the full table count.\<close>

definition mem_count :: "store \<Rightarrow> js_error + jsnum" where
  "mem_count d = Inr (Num (int (length (teacher_rows d))))"

text \<open>
  Modelled from the spec: the ordering of \<open>findAll\<close> of the missing gateway, by entity
  identity ascending or descending.
\<close>

definition order_rows :: "(string \<times> direction) list \<Rightarrow> teacher list \<Rightarrow> teacher list" where
  "order_rows order rows =
     (case order of
        [] \<Rightarrow> rows
      | (column, dir) # _ \<Rightarrow>
          if column = ''id''
          then (case dir of
                  ASC \<Rightarrow> sort_key teacher_id rows
                | DESC \<Rightarrow> rev (sort_key teacher_id rows))
          else rows)"

text \<open>
  Modelled from the spec: \<open>findAll({limit, offset, orderBy, include}) -> list<T>\<close> of
  the missing gateway: the rows in order, \<open>offset\<close> rows skipped, at most \<open>limit\<close> rows
  kept. The spec leaves a negative offset to the gateway; here an offset or limit
  that is negative, infinite or \<^verbatim>\<open>NaN\<close> is refused, as SQL databases refuse it.
\<close>

definition mem_findAll :: "find_options \<Rightarrow> store \<Rightarrow> js_error + teacher list" where
  "mem_findAll opts d =
     (case (fo_limit opts, fo_offset opts) of
        (Num limit, Num offset) \<Rightarrow>
          if limit < 0 \<or> offset < 0
          then Inl (Error ''negative LIMIT or OFFSET'')
          else Inr (map (with_courses (fo_include opts) d)
                      (take (nat limit)
                         (drop (nat offset)
                            (order_rows (fo_order opts) (teacher_rows d)))))
      | _ \<Rightarrow> Inl (Error ''LIMIT or OFFSET is not a number''))"

text \<open>
  Modelled from the spec: how the missing gateway reads the path parameter as a key
  (\<open>expected integer-like\<close>): a string of decimal digits is that integer, and any other
  string matches no record.
\<close>

definition key_of :: "string \<Rightarrow> int option" where
  "key_of k =
     (if k \<noteq> [] \<and> list_all (is_radix_digit 10) k then Some (radix_value 10 k) else None)"

text \<open>Modelled from the spec: \<open>findByKey(id, {include}) -> T | null\<close> of the missing gateway.\<close>

definition mem_findByPk :: "string \<Rightarrow> model_ref option \<Rightarrow> store \<Rightarrow> js_error + teacher option" where
  "mem_findByPk k inc d =
     Inr (case key_of k of
            None \<Rightarrow> None
          | Some n \<Rightarrow>
              map_option (with_courses (case inc of None \<Rightarrow> [] | Some m \<Rightarrow> [m]) d)
                (find (\<lambda>t. teacher_id t = n) (teacher_rows d)))"

text \<open>
  Modelled from the spec: the partial merge of \<open>update(instance, fields)\<close> of the missing
  gateway: a supplied \<open>name\<close> or \<open>department\<close> replaces the field, anything else
  stays; the identity is immutable.
\<close>

definition merge_fields :: "json_object \<Rightarrow> teacher \<Rightarrow> teacher" where
  "merge_fields b t =
     t\<lparr>teacher_name := (case map_of b ''name'' of None \<Rightarrow> teacher_name t | Some v \<Rightarrow> v),
       teacher_department :=
         (case map_of b ''department'' of None \<Rightarrow> teacher_department t | Some v \<Rightarrow> v)\<rparr>"

text \<open>
  Modelled from the spec: \<open>update(instance, fields) -> T | throws\<close> of the missing
  gateway: the merge is applied to the instance and to its row.
\<close>

definition mem_update :: "teacher \<Rightarrow> json_object \<Rightarrow> store \<Rightarrow> (js_error + teacher) \<times> store" where
  "mem_update t b d =
     (Inr (merge_fields b t),
      d\<lparr>teacher_rows :=
          map (\<lambda>r. if teacher_id r = teacher_id t then merge_fields b r else r) (teacher_rows d)\<rparr>)"

text \<open>
  Modelled from the spec: \<open>destroy(instance) -> void | throws\<close> of the missing gateway,
  a hard delete of the instance's row. The spec leaves the cascade toward Course records
  open; the course rows stay.
\<close>

definition mem_destroy :: "teacher \<Rightarrow> store \<Rightarrow> (js_error + unit) \<times> store" where
  "mem_destroy t d =
     (Inr (), d\<lparr>teacher_rows := filter (\<lambda>r. teacher_id r \<noteq> teacher_id t) (teacher_rows d)\<rparr>)"

text \<open>Modelled from the spec: the missing gateway \<^verbatim>\<open>db.Teacher\<close>, section 6.\<close>

definition mem_gateway :: "(json_object, teacher, store) gateway" where
  "mem_gateway =
     \<lparr>Teacher_create = mem_create,
      Teacher_count = mem_count,
      Teacher_findAll = mem_findAll,
      Teacher_findByPk = mem_findByPk,
      teacher_update = mem_update,
      teacher_destroy = mem_destroy\<rparr>"

text \<open>
  Modelled from the spec: a \<open>GatewayFailure\<close> (section 7) of the missing gateway, the
  database being unreachable: every operation throws and nothing is stored.
\<close>

definition unreachable_gateway :: "(json_object, teacher, store) gateway" where
  "unreachable_gateway =
     \<lparr>Teacher_create = (\<lambda>b d. (Inl (Error ''connect ECONNREFUSED''), d)),
      Teacher_count = (\<lambda>d. Inl (Error ''connect ECONNREFUSED'')),
      Teacher_findAll = (\<lambda>opts d. Inl (Error ''connect ECONNREFUSED'')),
      Teacher_findByPk = (\<lambda>k inc d. Inl (Error ''connect ECONNREFUSED'')),
      teacher_update = (\<lambda>t b d. (Inl (Error ''connect ECONNREFUSED''), d)),
      teacher_destroy = (\<lambda>t d. (Inl (Error ''connect ECONNREFUSED''), d))\<rparr>"

text \<open>
  Worlds and data for running the handlers: a world in which nothing has been sent or
  issued yet, an empty database, a query with no parameter, and a database of three
  teachers.
\<close>

definition fresh :: "'db \<Rightarrow> ('b, 'e, 'db) world" where
  "fresh d = \<lparr>database = d, sent = [], issued = []\<rparr>"

definition empty_store :: store where
  "empty_store = \<lparr>teacher_rows = [], next_id = 1, course_rows = []\<rparr>"

definition no_query :: query where
  "no_query = \<lparr>query_limit = None, query_page = None, query_sort = None, query_populate = None\<rparr>"

definition school :: store where
  "school =
     \<lparr>teacher_rows =
        [\<lparr>teacher_id = 1, teacher_name = ''Alice'', teacher_department = ''Math'',
          teacher_courses = None\<rparr>,
         \<lparr>teacher_id = 2, teacher_name = ''Bob'', teacher_department = ''Physics'',
          teacher_courses = None\<rparr>,
         \<lparr>teacher_id = 3, teacher_name = ''Carol'', teacher_department = ''Chemistry'',
          teacher_courses = None\<rparr>],
      next_id = 4,
      course_rows = [(1, ''Algebra'')]\<rparr>"

section \<open>Properties\<close>

subsection \<open>Rounding\<close>

lemma round_half_even_of_int: "round_half_even (of_int m) = m"
  by (simp add: round_half_even_def)

lemma round_half_even_mono:
  assumes "x \<le> y"
  shows "round_half_even x \<le> round_half_even y"
proof (cases "\<lfloor>x\<rfloor> = \<lfloor>y\<rfloor>")
  case True
  with assms show ?thesis
    by (auto simp: round_half_even_def Let_def)
next
  case False
  with assms have "\<lfloor>x\<rfloor> < \<lfloor>y\<rfloor>"
    using floor_mono [of x y] by linarith
  moreover have "round_half_even x \<le> \<lfloor>x\<rfloor> + 1" and "\<lfloor>y\<rfloor> \<le> round_half_even y"
    by (auto simp: round_half_even_def Let_def)
  ultimately show ?thesis by linarith
qed

lemma round_half_even_above:
  assumes "of_int m + 1 / 2 < x"
  shows "m + 1 \<le> round_half_even x"
proof -
  have "m \<le> \<lfloor>x\<rfloor>" using assms by (simp add: le_floor_iff)
  show ?thesis
  proof (cases "m = \<lfloor>x\<rfloor>")
    case True
    with assms have "1 / 2 < x - of_int \<lfloor>x\<rfloor>" by simp
    with True show ?thesis by (simp add: round_half_even_def Let_def)
  next
    case False
    with \<open>m \<le> \<lfloor>x\<rfloor>\<close> have "m + 1 \<le> \<lfloor>x\<rfloor>" by simp
    moreover have "\<lfloor>x\<rfloor> \<le> round_half_even x"
      by (auto simp: round_half_even_def Let_def)
    ultimately show ?thesis by linarith
  qed
qed

lemma halvings_bounds:
  "1 \<le> x \<Longrightarrow> 2 ^ halvings x \<le> x \<and> x < 2 * 2 ^ halvings x"
proof (induction x rule: halvings.induct)
  case (1 x)
  show ?case
  proof (cases "2 \<le> x")
    case True
    then have "1 \<le> x / 2" by simp
    with "1.IH" True have "2 ^ halvings (x / 2) \<le> x / 2 \<and> x / 2 < 2 * 2 ^ halvings (x / 2)"
      by blast
    moreover have "halvings x = Suc (halvings (x / 2))"
      using True by (subst halvings.simps) simp
    ultimately show ?thesis by simp
  next
    case False
    then have "halvings x = 0" by (subst halvings.simps) simp
    with False "1.prems" show ?thesis by simp
  qed
qed

lemma doublings_bounds:
  "0 < x \<Longrightarrow> x < 1 \<Longrightarrow> 1 \<le> x * 2 ^ doublings x \<and> x * 2 ^ doublings x < 2"
proof (induction x rule: doublings.induct)
  case (1 x)
  from "1.prems" have step: "doublings x = Suc (doublings (2 * x))"
    by (subst doublings.simps) simp
  show ?case
  proof (cases "2 * x < 1")
    case True
    with "1.IH" "1.prems" have "1 \<le> 2 * x * 2 ^ doublings (2 * x) \<and> 2 * x * 2 ^ doublings (2 * x) < 2"
      by simp
    with step show ?thesis by (simp add: mult.commute mult.left_commute)
  next
    case False
    then have "doublings (2 * x) = 0" by (subst doublings.simps) simp
    with step False "1.prems" show ?thesis by simp
  qed
qed

lemma binade_bounds:
  assumes "0 < x"
  shows "2 powi binade x \<le> x" and "x < 2 powi (binade x + 1)"
proof -
  show "2 powi binade x \<le> x"
  proof (cases "1 \<le> x")
    case True
    with halvings_bounds [of x] show ?thesis by (simp add: binade_def)
  next
    case False
    with assms doublings_bounds [of x] have "1 \<le> x * 2 ^ doublings x" by simp
    then have "1 / 2 ^ doublings x \<le> x"
      by (simp add: pos_divide_le_eq)
    with False show ?thesis
      by (simp add: binade_def power_int_minus_divide)
  qed
  show "x < 2 powi (binade x + 1)"
  proof (cases "1 \<le> x")
    case True
    with halvings_bounds [of x] show ?thesis
      by (simp add: binade_def power_int_add)
  next
    case False
    with assms doublings_bounds [of x] have "x * 2 ^ doublings x < 2" by simp
    then have "x < 2 / 2 ^ doublings x"
      by (simp add: pos_less_divide_eq)
    with False show ?thesis
      by (simp add: binade_def power_int_diff)
  qed
qed

text \<open>The binade is the only exponent with these bounds.\<close>

lemma binade_unique:
  assumes "2 powi e \<le> x" and "x < 2 powi (e + 1)"
  shows "binade x = e"
proof -
  have pos: "0 < x"
    using assms(1) zero_less_power_int [of "2 :: rat" e] by linarith
  note b = binade_bounds [OF pos]
  have "e < binade x + 1"
  proof (rule ccontr)
    assume "\<not> e < binade x + 1"
    then have "binade x + 1 \<le> e" by simp
    then have "(2::rat) powi (binade x + 1) \<le> 2 powi e"
      by (rule power_int_increasing) simp
    with assms(1) b(2) show False by linarith
  qed
  moreover have "binade x < e + 1"
  proof (rule ccontr)
    assume "\<not> binade x < e + 1"
    then have "e + 1 \<le> binade x" by simp
    then have "(2::rat) powi (e + 1) \<le> 2 powi binade x"
      by (rule power_int_increasing) simp
    with assms(2) b(1) show False by linarith
  qed
  ultimately show ?thesis by simp
qed


lemma round_to_double_pos:
  assumes "0 < x" and "- 1022 \<le> binade x"
  shows "round_to_double x =
    of_int (round_half_even (x / 2 powi (binade x - 52))) * 2 powi (binade x - 52)"
  using assms by (simp add: round_to_double_def Let_def max_def)

lemma round_to_double_exact:
  assumes "0 < x" and "- 1022 \<le> binade x" and "x / 2 powi (binade x - 52) = of_int m"
  shows "round_to_double x = x"
proof -
  have q: "(0::rat) < 2 powi (binade x - 52)" by simp
  have "round_to_double x = of_int m * 2 powi (binade x - 52)"
    using assms by (simp add: round_to_double_pos round_half_even_of_int)
  also have "\<dots> = x"
    using assms(3) q by (simp add: field_simps)
  finally show ?thesis .
qed

lemma binade_of_int:
  fixes n :: int
  assumes "0 < n" and "n \<le> 2 ^ 53"
  shows "0 \<le> binade (of_int n)" and "binade (of_int n) \<le> 53"
proof -
  let ?x = "of_int n :: rat"
  have pos: "0 < ?x" using assms by simp
  note b = binade_bounds [OF pos]
  show "0 \<le> binade ?x"
  proof (rule ccontr)
    assume "\<not> 0 \<le> binade ?x"
    then have "binade ?x + 1 \<le> 0" by simp
    then have "(2::rat) powi (binade ?x + 1) \<le> 2 powi 0"
      by (rule power_int_increasing) simp
    with b(2) have "?x < 1" by simp
    with assms show False by simp
  qed
  show "binade ?x \<le> 53"
  proof (rule ccontr)
    assume "\<not> binade ?x \<le> 53"
    then have "54 \<le> binade ?x" by simp
    then have "(2::rat) powi 54 \<le> 2 powi binade ?x"
      by (rule power_int_increasing) simp
    with b(1) have "(2::rat) ^ 54 \<le> ?x" by simp
    moreover have "?x \<le> 2 ^ 53" using assms(2) by (metis of_int_le_iff of_int_numeral of_int_power)
    ultimately show False by simp
  qed
qed


lemma round_to_double_minus: "round_to_double (- x) = - round_to_double x"
  by (simp add: round_to_double_def Let_def)

lemma powi_below_52:
  assumes "e \<le> 52"
  shows "(2::rat) powi (e - 52) = 1 / 2 ^ nat (52 - e)"
proof -
  have "e - 52 = - int (nat (52 - e))" using assms by simp
  then show ?thesis by (simp only: power_int_minus_divide power_int_of_nat)
qed

lemma round_to_double_of_pos_int:
  fixes n :: int
  assumes "0 < n" and "n \<le> 2 ^ 53"
  shows "round_to_double (of_int n) = of_int n"
proof -
  let ?x = "of_int n :: rat"
  let ?e = "binade ?x"
  have pos: "0 < ?x" using assms by simp
  note e = binade_of_int [OF assms]
  from e(1) have normal: "- 1022 \<le> ?e" by simp
  show ?thesis
  proof (cases "?e \<le> 52")
    case True
    have "?x / 2 powi (?e - 52) = of_int (n * 2 ^ nat (52 - ?e))"
      by (simp add: powi_below_52 [OF True])
    then show ?thesis
      by (rule round_to_double_exact [OF pos normal])
  next
    case False
    with e(2) have e53: "?e = 53" by simp
    with binade_bounds(1) [OF pos] have "(2::rat) ^ 53 \<le> ?x" by simp
    moreover have "?x \<le> 2 ^ 53"
      using assms(2) by (metis of_int_le_iff of_int_numeral of_int_power)
    ultimately have x: "?x = 2 ^ 53" by simp
    have "?x / 2 powi (?e - 52) = ?x / 2"
      unfolding e53 by simp
    also have "\<dots> = of_int (2 ^ 52)"
      unfolding x by simp
    finally show ?thesis
      by (rule round_to_double_exact [OF pos normal])
  qed
qed

lemma round_to_double_of_int:
  fixes n :: int
  assumes "\<bar>n\<bar> \<le> 2 ^ 53"
  shows "round_to_double (of_int n) = of_int n"
proof -
  consider "n = 0" | "0 < n" | "n < 0" by linarith
  then show ?thesis
  proof cases
    case 1
    then show ?thesis by (simp add: round_to_double_def)
  next
    case 2
    with assms show ?thesis by (simp add: round_to_double_of_pos_int)
  next
    case 3
    with assms have "round_to_double (of_int (- n)) = of_int (- n)"
      by (intro round_to_double_of_pos_int) simp_all
    then show ?thesis by (simp add: round_to_double_minus)
  qed
qed


lemma ceiling_round_to_double_quotient:
  fixes a b :: int
  assumes a: "0 \<le> a" "a \<le> 2 ^ 53" and b: "1 \<le> b" "b \<le> 2 ^ 53"
  shows "\<lceil>round_to_double (of_int a / of_int b)\<rceil> = \<lceil>(of_int a / of_int b :: rat)\<rceil>"
proof (cases "a = 0")
  case True
  then show ?thesis by (simp add: round_to_double_def)
next
  case False
  with a have apos: "0 < a" by simp
  define x :: rat where "x = of_int a / of_int b"
  define e where "e = binade x"
  define q :: rat where "q = 2 powi (e - 52)"
  define R where "R = round_half_even (x / q)"
  have bpos: "(0::rat) < of_int b" using b by simp
  have pos: "0 < x" using apos bpos by (simp add: x_def)
  have e1: "2 powi e \<le> x" and e2: "x < 2 powi (e + 1)"
    unfolding e_def by (rule binade_bounds [OF pos])+
  have b53: "(of_int b :: rat) \<le> 2 ^ 53"
    using b(2) by (metis of_int_le_iff of_int_numeral of_int_power)
  have a53: "(of_int a :: rat) \<le> 2 ^ 53"
    using a(2) by (metis of_int_le_iff of_int_numeral of_int_power)
  have x_lower: "1 / 2 ^ 53 \<le> x"
  proof -
    have "(1::rat) / 2 ^ 53 \<le> 1 / of_int b"
      using b53 bpos by (simp add: frac_le)
    also have "\<dots> \<le> x"
      using apos bpos by (simp add: x_def divide_right_mono)
    finally show ?thesis .
  qed
  have x_upper: "x \<le> 2 ^ 53"
  proof -
    have "x \<le> of_int a"
      using apos b(1) bpos by (simp add: x_def pos_divide_le_eq)
    with a53 show ?thesis by simp
  qed
  have e_lower: "- 53 \<le> e"
  proof (rule ccontr)
    assume "\<not> - 53 \<le> e"
    then have "e + 1 \<le> - 53" by simp
    then have "(2::rat) powi (e + 1) \<le> 2 powi (- 53)"
      by (rule power_int_increasing) simp
    also have "\<dots> = 1 / 2 ^ 53" by (simp add: power_int_minus_divide)
    finally have "(2::rat) powi (e + 1) \<le> 1 / 2 ^ 53" .
    with e2 x_lower show False by linarith
  qed
  have e_upper: "e \<le> 53"
  proof (rule ccontr)
    assume "\<not> e \<le> 53"
    then have "54 \<le> e" by simp
    then have "(2::rat) powi 54 \<le> 2 powi e"
      by (rule power_int_increasing) simp
    then have "(2::rat) ^ 54 \<le> 2 powi e" by simp
    moreover have "(2::rat) ^ 53 < 2 ^ 54" by simp
    ultimately show False using e1 x_upper by linarith
  qed
  from e_lower have normal: "- 1022 \<le> binade x" by (simp add: e_def)
  have qpos: "0 < q" by (simp add: q_def)
  have v: "round_to_double x = of_int R * q"
    unfolding R_def q_def e_def by (rule round_to_double_pos [OF pos normal])
  have "\<lceil>round_to_double x\<rceil> = \<lceil>x\<rceil>"
  proof (cases "x < 1")
    case True
    have e_neg: "e \<le> - 1"
    proof (rule ccontr)
      assume "\<not> e \<le> - 1"
      then have "0 \<le> e" by simp
      then have "(2::rat) powi 0 \<le> 2 powi e"
        by (rule power_int_increasing) simp
      then have "(1::rat) \<le> 2 powi e" by simp
      with e1 True show False by linarith
    qed
    have low: "(2::rat) powi e / q = of_int (2 ^ 52)"
      by (simp add: q_def power_int_diff)
    have high: "(2::rat) powi (e + 1) / q = of_int (2 ^ 53)"
      by (simp add: q_def power_int_diff power_int_add)
    have "2 powi e / q \<le> x / q"
      using e1 by (rule divide_right_mono) (use qpos in simp)
    then have "of_int (2 ^ 52) \<le> x / q"
      by (simp only: low)
    then have "round_half_even (of_int (2 ^ 52)) \<le> R"
      unfolding R_def by (rule round_half_even_mono)
    then have R_low: "2 ^ 52 \<le> R"
      by (simp only: round_half_even_of_int)
    have "x / q \<le> 2 powi (e + 1) / q"
      using e2 qpos by (intro divide_right_mono) simp_all
    then have "x / q \<le> of_int (2 ^ 53)"
      by (simp only: high)
    then have "R \<le> round_half_even (of_int (2 ^ 53))"
      unfolding R_def by (rule round_half_even_mono)
    then have R_high: "R \<le> 2 ^ 53"
      by (simp only: round_half_even_of_int)
    have "0 < R" using R_low by (rule less_le_trans [rotated]) simp
    then have "0 < of_int R * q"
      using qpos by simp
    moreover have "of_int R * q \<le> 1"
    proof -
      have "(of_int R :: rat) \<le> of_int (2 ^ 53)"
        using R_high by (simp only: of_int_le_iff)
      then have "of_int R * q \<le> of_int (2 ^ 53) * q"
        using qpos by (simp only: mult_le_cancel_right_pos)
      also have "\<dots> = 2 powi (e + 1)"
        using high qpos by (simp add: field_simps)
      also have "\<dots> \<le> 2 powi 0"
        using e_neg by (intro power_int_increasing) simp_all
      finally show ?thesis by simp
    qed
    ultimately have "\<lceil>round_to_double x\<rceil> = 1"
      unfolding v by (intro ceiling_unique) simp_all
    moreover have "\<lceil>x\<rceil> = 1"
      using pos True by (intro ceiling_unique) simp_all
    ultimately show ?thesis by simp
  next
    case False
    then have x1: "1 \<le> x" by simp
    define k where "k = a div b"
    define r where "r = a mod b"
    have ab: "a = k * b + r" by (simp add: k_def r_def)
    have r: "0 \<le> r" "r < b" using b by (simp_all add: r_def)
    have floor_x: "\<lfloor>x\<rfloor> = k"
      by (simp add: x_def k_def floor_divide_of_int_eq)
    show ?thesis
    proof (cases "r = 0")
      case True
      with ab have "a = k * b" by simp
      then have xk: "x = of_int k" using bpos by (simp add: x_def)
      with x1 have "0 < k" by simp
      moreover have "(of_int k :: rat) \<le> 2 ^ 53" using xk x_upper by simp
      then have "k \<le> 2 ^ 53"
        by (metis of_int_le_iff of_int_numeral of_int_power)
      ultimately have "round_to_double (of_int k) = of_int k"
        by (rule round_to_double_of_pos_int)
      then show ?thesis by (simp only: xk)
    next
      case False
      with r have rpos: "1 \<le> r" by simp
      have x_eq: "x = of_int k + of_int r / of_int b"
        using bpos by (simp add: x_def ab field_simps)
      have e_pos: "0 \<le> e"
      proof (rule ccontr)
        assume "\<not> 0 \<le> e"
        then have "e + 1 \<le> 0" by simp
        then have "(2::rat) powi (e + 1) \<le> 2 powi 0"
          by (rule power_int_increasing) simp
        then have "(2::rat) powi (e + 1) \<le> 1" by simp
        with e2 x1 show False by linarith
      qed
      define n where "n = nat e"
      have en: "e = int n" using e_pos by (simp add: n_def)
      have "(2::rat) ^ n \<le> x" using e1 by (simp add: en)
      then have "of_int (2 ^ n) \<le> x" by simp
      then have "2 ^ n \<le> \<lfloor>x\<rfloor>" by (simp only: le_floor_iff)
      then have k_low: "2 ^ n \<le> k" by (simp only: floor_x)
      have "b * 2 ^ n \<le> b * k"
        using k_low b(1) by (simp add: mult_left_mono)
      also have "\<dots> < a" using rpos by (simp add: ab mult.commute)
      finally have small: "b * 2 ^ n < 2 ^ 53" using a(2) by simp
      have n52: "n \<le> 52"
      proof (rule ccontr)
        assume "\<not> n \<le> 52"
        then have "53 \<le> n" by simp
        then have "(2::int) ^ 53 \<le> 2 ^ n" by (rule power_increasing) simp
        also have "\<dots> \<le> b * 2 ^ n" using b(1) by (simp add: mult_le_cancel_right1)
        finally show False using small by simp
      qed
      define s :: int where "s = 2 ^ (52 - n)"
      have spos: "0 < s" by (simp add: s_def)
      have split53: "(2::int) ^ 53 = 2 * s * 2 ^ n"
      proof -
        have "53 = Suc (52 - n) + n" using n52 by simp
        then have "(2::int) ^ 53 = 2 ^ (Suc (52 - n) + n)" by simp
        then show ?thesis by (simp only: power_add power_Suc s_def)
      qed
      have b_small: "b < 2 * s"
      proof -
        from small have "b * 2 ^ n < (2 * s) * 2 ^ n" by (simp only: split53)
        then show ?thesis by simp
      qed
      have q_eq: "q = 1 / of_int s"
      proof -
        have "e \<le> 52" using en n52 by simp
        then have "q = 1 / 2 ^ nat (52 - e)" unfolding q_def by (rule powi_below_52)
        moreover have "nat (52 - e) = 52 - n" by (simp add: en)
        ultimately show ?thesis by (simp add: s_def)
      qed
      have scaled: "x / q = x * of_int s" by (simp add: q_eq)
      have srat: "(0::rat) < of_int s" using spos by simp
      have "x < of_int k + 1"
        using r(2) bpos by (simp add: x_eq pos_divide_less_eq)
      then have "x * of_int s \<le> (of_int k + 1) * of_int s"
        using srat by (intro mult_right_mono) simp_all
      then have "x * of_int s \<le> of_int ((k + 1) * s)"
        by simp
      then have "round_half_even (x * of_int s) \<le> round_half_even (of_int ((k + 1) * s))"
        by (rule round_half_even_mono)
      then have R_high: "R \<le> (k + 1) * s"
        by (simp only: R_def scaled round_half_even_of_int)
      have "of_int (k * s) + 1 / 2 < x * of_int s"
      proof -
        have "(of_int b :: rat) < 2 * of_int s"
          using b_small by (metis of_int_less_iff of_int_mult of_int_numeral)
        then have "(1::rat) / 2 < of_int s / of_int b"
          using bpos by (simp add: pos_less_divide_eq)
        also have "\<dots> \<le> of_int r * (of_int s / of_int b)"
        proof -
          have "(1::rat) \<le> of_int r" using rpos by simp
          then have "1 * (of_int s / of_int b) \<le> of_int r * (of_int s / of_int b :: rat)"
            using srat bpos by (intro mult_right_mono) simp_all
          then show ?thesis by simp
        qed
        finally have "(1::rat) / 2 < of_int r * (of_int s / of_int b)" .
        then show ?thesis
          by (simp add: x_eq algebra_simps)
      qed
      then have "k * s + 1 \<le> round_half_even (x * of_int s)"
        by (rule round_half_even_above)
      then have R_low: "k * s + 1 \<le> R"
        by (simp only: R_def scaled)
      have v': "round_to_double x = of_int R / of_int s"
        by (simp add: v q_eq)
      have "of_int k < round_to_double x"
      proof -
        have "k * s < R" using R_low by simp
        then have "(of_int (k * s) :: rat) < of_int R"
          by (simp only: of_int_less_iff)
        then show ?thesis
          using srat by (simp add: v' pos_less_divide_eq)
      qed
      moreover have "round_to_double x \<le> of_int k + 1"
      proof -
        have "(of_int R :: rat) \<le> of_int ((k + 1) * s)"
          using R_high by (simp only: of_int_le_iff)
        then show ?thesis
          using srat by (simp add: v' pos_divide_le_eq)
      qed
      ultimately have "\<lceil>round_to_double x\<rceil> = k + 1"
        by (intro ceiling_unique) simp_all
      moreover have "\<lceil>x\<rceil> = k + 1"
      proof (rule ceiling_unique)
        show "of_int (k + 1) - 1 < x"
          using rpos bpos by (simp add: x_eq)
        show "x \<le> of_int (k + 1)"
          using r(2) bpos by (simp add: x_eq pos_divide_le_eq)
      qed
      ultimately show ?thesis by simp
    qed
  qed
  then show ?thesis by (simp only: x_def)
qed

text \<open>An integer of magnitude at most \<open>2 ^ 53\<close> is a double: no operation rounds it.\<close>

lemma to_Number_safe:
  assumes "\<bar>n\<bar> \<le> 2 ^ 53"
  shows "to_Number n = Num n"
proof -
  have "(of_int \<bar>n\<bar> :: rat) \<le> of_int (2 ^ 53)"
    using assms by (simp only: of_int_le_iff)
  then have "\<bar>of_int n :: rat\<bar> < 2 ^ 1024"
    by simp
  then show ?thesis
    by (simp add: to_Number_def round_to_double_of_int [OF assms])
qed

lemma js_minus_safe:
  "\<bar>a - b\<bar> \<le> 2 ^ 53 \<Longrightarrow> js_minus (Num a) (Num b) = Num (a - b)"
  by (simp add: to_Number_safe)

lemma js_times_safe:
  "\<bar>a * b\<bar> \<le> 2 ^ 53 \<Longrightarrow> js_times (Num a) (Num b) = Num (a * b)"
  by (simp add: to_Number_safe)

text \<open>
  For a count and a limit that are doubles up to \<open>2 ^ 53\<close>, rounding the quotient
  does not change its ceiling: \<^verbatim>\<open>Math.ceil(a / b)\<close> is the ceiling of the exact
  quotient.
\<close>

lemma Math_ceil_quotient_safe:
  assumes "0 \<le> a" "a \<le> 2 ^ 53" "1 \<le> b" "b \<le> 2 ^ 53"
  shows "Math_ceil_quotient (Num a) (Num b) = Num \<lceil>real_of_int a / real_of_int b\<rceil>"
proof -
  define v where "v = round_to_double (of_int a / of_int b)"
  define k where "k = \<lceil>(of_int a / of_int b :: rat)\<rceil>"
  have vk: "\<lceil>v\<rceil> = k"
    unfolding v_def k_def by (rule ceiling_round_to_double_quotient [OF assms])
  have "k = - (- a div b)"
    unfolding k_def by (rule ceiling_divide_eq_div)
  moreover have "\<lceil>real_of_int a / real_of_int b\<rceil> = - (- a div b)"
    by (rule ceiling_divide_eq_div)
  ultimately have real: "\<lceil>real_of_int a / real_of_int b\<rceil> = k" by simp
  have "(0::rat) \<le> of_int a / of_int b"
    using assms by simp
  then have "- 1 < (of_int a / of_int b :: rat)"
    by linarith
  then have "0 \<le> k"
    unfolding k_def by (simp only: zero_le_ceiling)
  have "(of_int a / of_int b :: rat) \<le> of_int a"
    using assms by (simp add: pos_divide_le_eq mult_le_cancel_left1)
  also have "\<dots> \<le> of_int (2 ^ 53)"
    using assms(2) by (simp only: of_int_le_iff)
  finally have "k \<le> 2 ^ 53"
    unfolding k_def by (rule ceiling_le)
  then have "(of_int k :: rat) \<le> of_int (2 ^ 53)"
    by (simp only: of_int_le_iff)
  moreover have "v \<le> of_int k"
    unfolding vk [symmetric] by (rule le_of_int_ceiling)
  ultimately have upper: "v < 2 ^ 1024"
    by simp
  have "of_int k - 1 < v"
    unfolding vk [symmetric] by linarith
  with \<open>0 \<le> k\<close> have lower: "- 1 < v"
    by simp
  have "\<not> 2 ^ 1024 \<le> v" and "\<not> v \<le> - (2 ^ 1024)"
    using upper lower by simp_all
  then have "Math_ceil_quotient (Num a) (Num b) = Num \<lceil>v\<rceil>"
    using assms(3) by (simp add: v_def Let_def)
  then show ?thesis by (simp only: vk real)
qed

text \<open>For a divisor of at least 1, the ceiling of \<open>a / b\<close> is the least number of blocks
  of \<open>b\<close> that cover \<open>a\<close>.\<close>

lemma ceiling_quotient_bounds:
  fixes a b :: int
  assumes "1 \<le> b"
  shows "(\<lceil>real_of_int a / real_of_int b\<rceil> - 1) * b < a"
    and "a \<le> \<lceil>real_of_int a / real_of_int b\<rceil> * b"
proof -
  let ?x = "real_of_int a / real_of_int b"
  have b: "0 < real_of_int b" using assms by simp
  have lo: "real_of_int \<lceil>?x\<rceil> - 1 < ?x"
    by linarith
  have hi: "?x \<le> real_of_int \<lceil>?x\<rceil>"
    by (rule le_of_int_ceiling)
  from lo have "(real_of_int \<lceil>?x\<rceil> - 1) * real_of_int b < real_of_int a"
    unfolding pos_less_divide_eq [OF b] .
  moreover from hi have "real_of_int a \<le> real_of_int \<lceil>?x\<rceil> * real_of_int b"
    unfolding pos_divide_le_eq [OF b] .
  ultimately have "real_of_int ((\<lceil>?x\<rceil> - 1) * b) < real_of_int a"
    and "real_of_int a \<le> real_of_int (\<lceil>?x\<rceil> * b)"
    by simp_all
  then show "(\<lceil>?x\<rceil> - 1) * b < a" and "a \<le> \<lceil>?x\<rceil> * b"
    unfolding of_int_less_iff of_int_le_iff by simp_all
qed

text \<open>
  Beyond \<open>2 ^ 53\<close> the Numbers are rounded, and beyond the largest double they are
  infinite: \<open>2 ^ 53 + 1\<close> is read as \<open>2 ^ 53\<close>, the product \<open>94906267 * 94906267\<close>
  loses its last unit, and a decimal of 310 digits is \<^verbatim>\<open>Infinity\<close>.
\<close>


text \<open>A magnitude from \<open>2 ^ 1024\<close> on is infinite.\<close>

lemma to_Number_overflow:
  assumes "2 ^ 1024 \<le> n"
  shows "to_Number n = PosInfinity"
proof -
  define x :: rat where "x = of_int n"
  define e where "e = binade x"
  define q :: rat where "q = 2 powi (e - 52)"
  have "(of_int (2 ^ 1024) :: rat) \<le> of_int n"
    using assms by (simp only: of_int_le_iff)
  then have big: "2 ^ 1024 \<le> x" by (simp add: x_def)
  then have pos: "0 < x" by (rule less_le_trans [rotated]) simp
  have e1: "2 powi e \<le> x" and e2: "x < 2 powi (e + 1)"
    unfolding e_def by (rule binade_bounds [OF pos])+
  have e_big: "1024 \<le> e"
  proof (rule ccontr)
    assume "\<not> 1024 \<le> e"
    then have "e + 1 \<le> 1024" by simp
    then have "(2::rat) powi (e + 1) \<le> 2 powi 1024"
      by (rule power_int_increasing) simp
    then have "(2::rat) powi (e + 1) \<le> 2 ^ 1024" by simp
    with e2 big show False by linarith
  qed
  then have normal: "- 1022 \<le> binade x" by (simp add: e_def)
  have qpos: "0 < q" by (simp add: q_def)
  have low: "(2::rat) powi e / q = of_int (2 ^ 52)"
    by (simp add: q_def power_int_diff)
  have "2 powi e / q \<le> x / q"
    using e1 by (rule divide_right_mono) (use qpos in simp)
  then have "of_int (2 ^ 52) \<le> x / q"
    by (simp only: low)
  then have "round_half_even (of_int (2 ^ 52)) \<le> round_half_even (x / q)"
    by (rule round_half_even_mono)
  then have "2 ^ 52 \<le> round_half_even (x / q)"
    by (simp only: round_half_even_of_int)
  then have "(of_int (2 ^ 52) :: rat) \<le> of_int (round_half_even (x / q))"
    by (simp only: of_int_le_iff)
  then have "of_int (2 ^ 52) * q \<le> of_int (round_half_even (x / q)) * q"
    using qpos by (simp only: mult_le_cancel_right_pos)
  moreover have "of_int (2 ^ 52) * q = 2 powi e"
    using low qpos by (simp add: field_simps)
  moreover have "(2::rat) powi 1024 \<le> 2 powi e"
    using e_big by (rule power_int_increasing) simp
  moreover have "round_to_double x = of_int (round_half_even (x / q)) * q"
    unfolding q_def e_def by (rule round_to_double_pos [OF pos normal])
  ultimately have "2 ^ 1024 \<le> round_to_double x" by simp
  then have "2 ^ 1024 \<le> \<bar>round_to_double (of_int n)\<bar>"
    by (simp add: x_def)
  moreover have "0 < n" using pos by (simp add: x_def)
  ultimately show ?thesis
    by (simp add: to_Number_def Let_def)
qed

text \<open>
  Beyond \<open>2 ^ 53\<close> the Numbers are rounded: \<open>2 ^ 53 + 1\<close> is read as \<open>2 ^ 53\<close>, the
  product \<open>94906267 * 94906267\<close> loses its last unit, and a decimal of 310 digits is
  \<^verbatim>\<open>Infinity\<close>.
\<close>

lemma round_to_double_binade_53:
  fixes n :: int
  assumes "2 ^ 53 \<le> n" and "n < 2 ^ 54"
  shows "to_Number n = Num (2 * round_half_even (of_int n / 2))"
proof -
  define x :: rat where "x = of_int n"
  have "(of_int (2 ^ 53) :: rat) \<le> of_int n" and "(of_int n :: rat) < of_int (2 ^ 54)"
    using assms by (simp_all only: of_int_le_iff of_int_less_iff)
  then have lo: "2 powi 53 \<le> x" and hi: "x < 2 powi (53 + 1)"
    by (simp_all add: x_def)
  then have e: "binade x = 53" by (rule binade_unique)
  from lo have pos: "0 < x" by (rule less_le_trans [rotated]) simp
  have v: "round_to_double x = of_int (round_half_even (x / 2)) * 2"
    using round_to_double_pos [OF pos] by (simp add: e)
  have "x / 2 \<le> of_int (2 ^ 53)" using hi by simp
  then have "round_half_even (x / 2) \<le> round_half_even (of_int (2 ^ 53))"
    by (rule round_half_even_mono)
  then have "round_half_even (x / 2) \<le> 2 ^ 53"
    by (simp only: round_half_even_of_int)
  moreover have "of_int (2 ^ 52) \<le> x / 2" using lo by simp
  then have "round_half_even (of_int (2 ^ 52)) \<le> round_half_even (x / 2)"
    by (rule round_half_even_mono)
  then have "2 ^ 52 \<le> round_half_even (x / 2)"
    by (simp only: round_half_even_of_int)
  ultimately have "\<bar>round_half_even (x / 2)\<bar> \<le> 2 ^ 53" by simp
  then have "(of_int \<bar>round_half_even (x / 2)\<bar> :: rat) \<le> of_int (2 ^ 53)"
    by (simp only: of_int_le_iff)
  then have "\<bar>round_to_double x\<bar> < 2 ^ 1024"
    by (simp add: v abs_mult)
  moreover have "\<lfloor>round_to_double x\<rfloor> = 2 * round_half_even (x / 2)"
  proof -
    have "round_to_double x = of_int (2 * round_half_even (x / 2))"
      by (simp add: v)
    then show ?thesis by (simp only: floor_of_int)
  qed
  ultimately show ?thesis
    by (simp add: to_Number_def Let_def x_def)
qed

lemma parseInt_rounds: "parseInt ''9007199254740993'' = Num 9007199254740992"
proof -
  have "signed_mathInt ''9007199254740993'' = Some 9007199254740993"
    by code_simp
  moreover have "\<lfloor>(9007199254740993::rat) / 2\<rfloor> = 4503599627370496"
    by (rule floor_unique) simp_all
  then have "round_half_even (9007199254740993 / 2) = 4503599627370496"
    by (simp add: round_half_even_def Let_def)
  then have "to_Number 9007199254740993 = Num 9007199254740992"
    using round_to_double_binade_53 [of 9007199254740993] by simp
  ultimately show ?thesis by (simp add: parseInt_def)
qed

lemma js_times_rounds: "js_times (Num 94906267) (Num 94906267) = Num 9007199515875288"
proof -
  have "\<lfloor>(9007199515875289::rat) / 2\<rfloor> = 4503599757937644"
    by (rule floor_unique) simp_all
  then have "round_half_even (9007199515875289 / 2) = 4503599757937644"
    by (simp add: round_half_even_def Let_def)
  then have "to_Number 9007199515875289 = Num 9007199515875288"
    using round_to_double_binade_53 [of 9007199515875289] by simp
  then show ?thesis by simp
qed

lemma parseInt_overflows: "parseInt (''1'' @ replicate 309 (CHR ''0'')) = PosInfinity"
proof -
  have "signed_mathInt (''1'' @ replicate 309 (CHR ''0'')) = Some (10 ^ 309)"
    by code_simp
  moreover have "to_Number (10 ^ 309) = PosInfinity"
    by (rule to_Number_overflow) simp
  ultimately show ?thesis by (simp add: parseInt_def)
qed

lemma parseInt_safe:
  "signed_mathInt s = Some n \<Longrightarrow> \<bar>n\<bar> \<le> 2 ^ 53 \<Longrightarrow> parseInt s = Num n"
  by (simp add: parseInt_def to_Number_safe)


subsection \<open>Facts about the primitives\<close>

lemmas await_defs =
  await_create_def await_count_def await_findAll_def await_findByPk_def await_update_def
  await_destroy_def issue_def res_status_json_def res_json_def

lemma parseInt_undefined: "parseInt ''undefined'' = NaN"
  by code_simp

text \<open>The divisor of \<^verbatim>\<open>Math.ceil(total / limit)\<close> is never zero.\<close>

lemma list_limit_nonzero: "list_limit q \<noteq> Num 0"
  by (simp add: list_limit_def or_default_def)

lemma lower_char_comma: "lower_char c = CHR '','' \<longleftrightarrow> c = CHR '',''"
proof (cases "65 \<le> (of_char c :: nat) \<and> (of_char c :: nat) \<le> 90")
  case True
  then have "of_char (lower_char c) = (of_char c :: nat) + 32"
    by (simp add: lower_char_def)
  with True have "(of_char (lower_char c) :: nat) \<noteq> 44" and "(of_char c :: nat) \<noteq> 44"
    by simp_all
  then show ?thesis by auto
next
  case False
  then have "lower_char c = c" by (auto simp: lower_char_def)
  then show ?thesis by simp
qed

lemma split_nonempty: "split sep s \<noteq> []"
  by (induction s) (auto split: list.splits)

text \<open>Lowering the case moves no comma, so it commutes with splitting at commas.\<close>

lemma split_toLowerCase:
  "split (CHR '','') (toLowerCase s) = map toLowerCase (split (CHR '','') s)"
proof (induction s)
  case Nil
  then show ?case by (simp add: toLowerCase_def)
next
  case (Cons c cs)
  then show ?case
    using split_nonempty [of "CHR '',''" cs]
    by (cases "split (CHR '','') cs") (auto simp: toLowerCase_def lower_char_comma)
qed

lemma map_filter_course:
  "List.map_filter (\<lambda>x. x) (map (\<lambda>model. if P model then Some Course else None) ts)
   = map (\<lambda>t. Course) (filter P ts)"
  by (induction ts) simp_all

lemma list_include_tokens:
  "list_include (toLowerCase s)
   = map (\<lambda>t. Course) (filter (\<lambda>t. toLowerCase t = ''course'') (split (CHR '','') s))"
proof (cases "s = []")
  case True
  then show ?thesis by (simp add: list_include_def toLowerCase_def)
next
  case False
  then have "toLowerCase s \<noteq> []" by (simp add: toLowerCase_def)
  then show ?thesis
    by (simp add: list_include_def map_filter_course split_toLowerCase filter_map comp_def)
qed

subsection \<open>The in-memory gateway keeps its contract\<close>

lemma mem_findAll_at_most:
  "mem_findAll opts d = Inr rows \<Longrightarrow> fo_limit opts = Num l \<Longrightarrow> 0 \<le> l
   \<Longrightarrow> int (length rows) \<le> l"
  by (auto simp: mem_findAll_def split: if_splits jsnum.splits)

lemma find_map_same_key:
  assumes "\<And>r. key (f r) = key r"
  shows "find (\<lambda>r. key r = n) (map f rows) = map_option f (find (\<lambda>r. key r = n) rows)"
  using assms by (induction rows) simp_all

lemma filter_others_map:
  assumes "\<And>r. key (g r) = key r"
  shows "filter (\<lambda>r. key r \<noteq> n) (map (\<lambda>r. if key r = n then g r else r) rows)
         = filter (\<lambda>r. key r \<noteq> n) rows"
  using assms by (induction rows) simp_all

lemma merge_fields_id: "teacher_id (merge_fields b r) = teacher_id r"
  by (simp add: merge_fields_def)

lemma merge_fields_nothing:
  "map_of b ''name'' = None \<Longrightarrow> map_of b ''department'' = None \<Longrightarrow> merge_fields b r = r"
  by (simp add: merge_fields_def)

lemma mem_findByPk_found:
  assumes "mem_findByPk k None d = Inr (Some t)"
  shows "find (\<lambda>r. teacher_id r = teacher_id t) (teacher_rows d) = Some t
         \<and> key_of k = Some (teacher_id t)"
proof -
  from assms obtain n where n: "key_of k = Some n"
    and found: "find (\<lambda>r. teacher_id r = n) (teacher_rows d) = Some t"
    by (auto simp: mem_findByPk_def with_courses_def split: option.splits)
  from found have "teacher_id t = n"
    by (auto simp: find_Some_iff)
  with n found show ?thesis by simp
qed

lemma mem_findByPk_after_destroy:
  assumes "key_of k = Some n"
  shows "mem_findByPk k inc (d\<lparr>teacher_rows := filter (\<lambda>r. teacher_id r \<noteq> n) (teacher_rows d)\<rparr>)
         = Inr None"
proof -
  have "find (\<lambda>r. teacher_id r = n) (filter (\<lambda>r. teacher_id r \<noteq> n) (teacher_rows d)) = None"
    by (simp add: find_None_iff)
  with assms show ?thesis by (simp add: mem_findByPk_def)
qed

text \<open>The page comes in the order asked for: by key, descending for \<^verbatim>\<open>sort=desc\<close>.\<close>

lemma with_courses_id: "teacher_id (with_courses inc d t) = teacher_id t"
  by (simp add: with_courses_def)

lemma mem_findAll_ordered:
  assumes "mem_findAll (list_options q) d = Inr rows"
  shows "if query_sort q = Some ''desc''
         then sorted (rev (map teacher_id rows))
         else sorted (map teacher_id rows)"
proof -
  let ?ids = "map teacher_id rows"
  let ?opts = "list_options q"
  let ?sorted = "sort_key teacher_id (teacher_rows d)"
  have order: "fo_order ?opts = [(''id'', list_sort q)]"
    by (simp add: list_options_def)
  from assms obtain l off where rows: "?ids =
      take (nat l) (drop (nat off)
        (map teacher_id (order_rows (fo_order ?opts) (teacher_rows d))))"
    by (auto simp: mem_findAll_def with_courses_id comp_def take_map drop_map
        split: if_splits jsnum.splits)
  have asc: "sorted (map teacher_id ?sorted)"
    by (rule sorted_sort_key)
  show ?thesis
  proof (cases "query_sort q = Some ''desc''")
    case True
    then have "map teacher_id (order_rows (fo_order ?opts) (teacher_rows d))
        = rev (map teacher_id ?sorted)"
      by (simp add: order order_rows_def list_sort_def rev_map)
    moreover from asc have "sorted_wrt (\<ge>) (rev (map teacher_id ?sorted))"
      by (simp add: sorted_wrt_rev)
    ultimately have "sorted_wrt (\<ge>) ?ids"
      using rows by (simp add: sorted_wrt_take sorted_wrt_drop)
    with True show ?thesis
      by (simp add: sorted_wrt_rev)
  next
    case False
    then have "map teacher_id (order_rows (fo_order ?opts) (teacher_rows d))
        = map teacher_id ?sorted"
      by (simp add: order order_rows_def list_sort_def)
    with asc have "sorted ?ids"
      using rows by (simp add: sorted_wrt_take sorted_wrt_drop)
    with False show ?thesis by simp
  qed
qed

subsection \<open>List: errors\<close>

text \<open>
  Inside the \<^verbatim>\<open>try\<close> block an error is answered: when \<^verbatim>\<open>findAll\<close> throws, the
  handler writes one response, 500 with the message.
\<close>

lemma getAllTeachers_findAll_throws:
  "Teacher_count db (database w) = Inr n \<Longrightarrow>
   Teacher_findAll db (list_options (query req)) (database w) = Inl err \<Longrightarrow>
   getAllTeachers db req w =
     (Fulfilled,
      w\<lparr>sent := sent w @ [\<lparr>status = 500, json = Error_body (message err)\<rparr>],
        issued := issued w @ [Count, FindAll (list_options (query req))]\<rparr>)"
  by (simp add: getAllTeachers_def await_defs)

text \<open>
  \<^verbatim>\<open>await db.Teacher.count()\<close> stands before the \<^verbatim>\<open>try\<close> block: when it throws,
  for any gateway, the promise is rejected, nothing is written to \<^verbatim>\<open>res\<close> and
  \<^verbatim>\<open>findAll\<close> is not called.
\<close>

lemma getAllTeachers_count_throws:
  "Teacher_count db (database w) = Inl err \<Longrightarrow>
   getAllTeachers db req w = (Rejected err, w\<lparr>issued := issued w @ [Count]\<rparr>)"
  by (simp add: getAllTeachers_def await_defs)

text \<open>
  C1. The claim: for every List request, any error the gateway raises, the initial
  count included, is answered by the handler with exactly one response, 500 and
  \<^verbatim>\<open>{ error: message }\<close>. The code does not do this for \<^verbatim>\<open>count\<close>: with the
  database unreachable, the List handler issues \<^verbatim>\<open>count\<close>, its promise is rejected
  with the gateway's error, and no response has been written.
\<close>

theorem count_error_escapes_getAllTeachers:
  "getAllTeachers unreachable_gateway \<lparr>params_id = [], query = no_query, body = []\<rparr>
     (fresh empty_store) =
   (Rejected (Error ''connect ECONNREFUSED''),
    \<lparr>database = empty_store, sent = [], issued = [Count]\<rparr>)"
  by (simp add: getAllTeachers_def await_defs unreachable_gateway_def fresh_def)

subsection \<open>List: limit and page\<close>

text \<open>
  C2, as claimed: a zero \<open>limit\<close> or \<open>page\<close> is passed through uncorrected. It is not:
  \<^verbatim>\<open>parseInt("0")\<close> is the number 0, not \<^verbatim>\<open>NaN\<close>, and \<^verbatim>\<open>0 || 10\<close> is 10,
  \<^verbatim>\<open>0 || 1\<close> is 1.
\<close>

theorem zero_limit_is_replaced:
  "parseInt ''0'' = Num 0
   \<and> list_limit (no_query\<lparr>query_limit := Some ''0''\<rparr>) = Num 10
   \<and> list_page (no_query\<lparr>query_page := Some ''0''\<rparr>) = Num 1"
proof -
  have "signed_mathInt ''0'' = Some 0"
    by code_simp
  then have "parseInt ''0'' = Num 0"
    by (rule parseInt_safe) simp
  then show ?thesis
    by (simp add: list_limit_def list_page_def ToString_def or_default_def)
qed

text \<open>
  C2, amended: for every List request, \<open>limit\<close> and \<open>page\<close> fall back to their defaults
  (10 and 1) when the supplied value is absent, non-numeric (\<^verbatim>\<open>NaN\<close>) or zero; any
  other value, a negative one included, is passed through uncorrected.
\<close>

theorem limit_page_fallback:
  "list_limit q =
     (case query_limit q of
        None \<Rightarrow> Num 10
      | Some s \<Rightarrow>
          (case parseInt s of
             NaN \<Rightarrow> Num 10
           | Num n \<Rightarrow> if n = 0 then Num 10 else Num n
           | PosInfinity \<Rightarrow> PosInfinity
           | NegInfinity \<Rightarrow> NegInfinity))
   \<and> list_page q =
     (case query_page q of
        None \<Rightarrow> Num 1
      | Some s \<Rightarrow>
          (case parseInt s of
             NaN \<Rightarrow> Num 1
           | Num n \<Rightarrow> if n = 0 then Num 1 else Num n
           | PosInfinity \<Rightarrow> PosInfinity
           | NegInfinity \<Rightarrow> NegInfinity))"
  by (simp add: list_limit_def list_page_def ToString_def or_default_def parseInt_undefined
      split: option.split jsnum.split)

theorem limit_page_fallback_witness:
  "list_limit (no_query\<lparr>query_limit := Some ''-5'', query_page := Some ''abc''\<rparr>) = Num (- 5)
   \<and> list_page (no_query\<lparr>query_limit := Some ''-5'', query_page := Some ''abc''\<rparr>) = Num 1"
proof -
  have "signed_mathInt ''-5'' = Some (- 5)"
    by code_simp
  then have "parseInt ''-5'' = Num (- 5)"
    by (rule parseInt_safe) simp
  moreover have "signed_mathInt ''abc'' = None"
    by code_simp
  then have "parseInt ''abc'' = NaN"
    by (simp add: parseInt_def)
  ultimately show ?thesis
    using limit_page_fallback
      [of "no_query\<lparr>query_limit := Some ''-5'', query_page := Some ''abc''\<rparr>"]
    by simp
qed

subsection \<open>List: the page\<close>

text \<open>Once \<^verbatim>\<open>count\<close> has returned, the handler issues one \<^verbatim>\<open>findAll\<close>, with these options.\<close>

lemma getAllTeachers_issues:
  "Teacher_count db (database w) = Inr n \<Longrightarrow>
   issued (snd (getAllTeachers db req w)) = issued w @ [Count, FindAll (list_options (query req))]"
  by (simp add: getAllTeachers_def await_defs split: sum.split)

text \<open>
  C4. For every List request that the gateway answers: the handler responds 200 with
  \<open>meta.total\<close> the count the gateway returned and \<open>meta.totalPages\<close> the value of
  \<^verbatim>\<open>Math.ceil(total / limit)\<close>; the one \<^verbatim>\<open>findAll\<close> is issued with the offset
  \<^verbatim>\<open>(page - 1) * limit\<close> and the limit \<open>limit\<close>, both in the code's Number arithmetic;
  the data are the rows it returned. For \<open>limit \<ge> 1\<close> there are at most \<open>limit\<close> rows,
  whenever the gateway's \<^verbatim>\<open>findAll\<close> returns no more rows than the limit it is given.
  For \<open>page \<ge> 1\<close> and \<open>limit \<ge> 1\<close>, as long as the count, the limit and the product
  \<open>(page - 1) * limit\<close> do not exceed \<open>2 ^ 53\<close>, no operation rounds: \<open>totalPages\<close> is
  the exact ceiling of \<open>total / limit\<close> (the least number of pages of \<open>limit\<close> rows that
  hold \<open>total\<close> rows) and the offset is the exact product.
\<close>

theorem page_arithmetic:
  assumes count: "Teacher_count db (database w) = Inr total'"
    and rows: "Teacher_findAll db (list_options (query req)) (database w) = Inr teachers"
    and at_most: "\<forall>opts d rows l. Teacher_findAll db opts d = Inr rows \<longrightarrow>
                   fo_limit opts = Num l \<longrightarrow> 0 \<le> l \<longrightarrow> int (length rows) \<le> l"
  shows "\<exists>pages opts.
           getAllTeachers db req w =
             (Fulfilled,
              w\<lparr>sent := sent w @
                   [\<lparr>status = 200,
                     json = Page \<lparr>meta_total = total', meta_page = list_page (query req),
                                  meta_totalPages = pages\<rparr>
                              teachers\<rparr>],
                issued := issued w @ [Count, FindAll opts]\<rparr>)
           \<and> pages = Math_ceil_quotient total' (list_limit (query req))
           \<and> fo_offset opts =
               js_times (js_minus (list_page (query req)) (Num 1)) (list_limit (query req))
           \<and> fo_limit opts = list_limit (query req)
           \<and> (list_limit (query req) = Num limit \<and> 1 \<le> limit \<longrightarrow>
                int (length teachers) \<le> limit)
           \<and> (total' = Num n \<and> 0 \<le> n \<and> n \<le> 2 ^ 53
                \<and> list_limit (query req) = Num limit \<and> 1 \<le> limit \<and> limit \<le> 2 ^ 53 \<longrightarrow>
                pages = Num \<lceil>real_of_int n / real_of_int limit\<rceil>
                \<and> (\<lceil>real_of_int n / real_of_int limit\<rceil> - 1) * limit < n
                \<and> n \<le> \<lceil>real_of_int n / real_of_int limit\<rceil> * limit)
           \<and> (list_page (query req) = Num page \<and> 1 \<le> page
                \<and> list_limit (query req) = Num limit \<and> 1 \<le> limit
                \<and> (page - 1) * limit \<le> 2 ^ 53 \<longrightarrow>
                fo_offset opts = Num ((page - 1) * limit))"
proof -
  let ?opts = "list_options (query req)"
  let ?pages = "Math_ceil_quotient total' (list_limit (query req))"
  have run: "getAllTeachers db req w =
      (Fulfilled,
       w\<lparr>sent := sent w @
            [\<lparr>status = 200,
              json = Page \<lparr>meta_total = total', meta_page = list_page (query req),
                           meta_totalPages = ?pages\<rparr>
                       teachers\<rparr>],
         issued := issued w @ [Count, FindAll ?opts]\<rparr>)"
    using count rows by (simp add: getAllTeachers_def await_defs)
  have offset: "fo_offset ?opts =
      js_times (js_minus (list_page (query req)) (Num 1)) (list_limit (query req))"
    and limit: "fo_limit ?opts = list_limit (query req)"
    by (simp_all add: list_options_def)
  have few: "list_limit (query req) = Num limit \<and> 1 \<le> limit \<longrightarrow>
      int (length teachers) \<le> limit"
  proof
    assume "list_limit (query req) = Num limit \<and> 1 \<le> limit"
    then have "fo_limit ?opts = Num limit" and "0 \<le> limit"
      by (simp_all add: limit)
    with rows at_most show "int (length teachers) \<le> limit"
      by blast
  qed
  have exact_pages: "total' = Num n \<and> 0 \<le> n \<and> n \<le> 2 ^ 53
      \<and> list_limit (query req) = Num limit \<and> 1 \<le> limit \<and> limit \<le> 2 ^ 53 \<longrightarrow>
      ?pages = Num \<lceil>real_of_int n / real_of_int limit\<rceil>
      \<and> (\<lceil>real_of_int n / real_of_int limit\<rceil> - 1) * limit < n
      \<and> n \<le> \<lceil>real_of_int n / real_of_int limit\<rceil> * limit"
  proof
    assume safe: "total' = Num n \<and> 0 \<le> n \<and> n \<le> 2 ^ 53
      \<and> list_limit (query req) = Num limit \<and> 1 \<le> limit \<and> limit \<le> 2 ^ 53"
    then have "Math_ceil_quotient (Num n) (Num limit) = Num \<lceil>real_of_int n / real_of_int limit\<rceil>"
      by (intro Math_ceil_quotient_safe) simp_all
    moreover from safe have "1 \<le> limit" by simp
    note ceiling_quotient_bounds [OF this, of n]
    ultimately show "?pages = Num \<lceil>real_of_int n / real_of_int limit\<rceil>
      \<and> (\<lceil>real_of_int n / real_of_int limit\<rceil> - 1) * limit < n
      \<and> n \<le> \<lceil>real_of_int n / real_of_int limit\<rceil> * limit"
      using safe by simp
  qed
  have exact_offset: "list_page (query req) = Num page \<and> 1 \<le> page
      \<and> list_limit (query req) = Num limit \<and> 1 \<le> limit
      \<and> (page - 1) * limit \<le> 2 ^ 53 \<longrightarrow>
      fo_offset ?opts = Num ((page - 1) * limit)"
  proof
    assume safe: "list_page (query req) = Num page \<and> 1 \<le> page
      \<and> list_limit (query req) = Num limit \<and> 1 \<le> limit
      \<and> (page - 1) * limit \<le> 2 ^ 53"
    then have nonneg: "0 \<le> page - 1" "0 \<le> (page - 1) * limit"
      by simp_all
    from safe have "(page - 1) * 1 \<le> (page - 1) * limit"
      by (intro mult_left_mono) simp_all
    with safe nonneg have "\<bar>page - 1\<bar> \<le> 2 ^ 53" and "\<bar>(page - 1) * limit\<bar> \<le> 2 ^ 53"
      by simp_all
    then have "js_times (js_minus (Num page) (Num 1)) (Num limit) = Num ((page - 1) * limit)"
      by (simp only: js_minus_safe js_times_safe)
    with safe show "fo_offset ?opts = Num ((page - 1) * limit)"
      by (simp add: offset)
  qed
  from run offset limit few exact_pages exact_offset show ?thesis
    by blast
qed

theorem page_arithmetic_witness:
  "list_limit (no_query\<lparr>query_limit := Some ''2'', query_page := Some ''2''\<rparr>) = Num 2
   \<and> list_page (no_query\<lparr>query_limit := Some ''2'', query_page := Some ''2''\<rparr>) = Num 2
   \<and> Teacher_count mem_gateway school = Inr (Num 3)
   \<and> (\<exists>opts.
        getAllTeachers mem_gateway
          \<lparr>params_id = [], query = no_query\<lparr>query_limit := Some ''2'', query_page := Some ''2''\<rparr>,
           body = []\<rparr>
          (fresh school) =
          (Fulfilled,
           \<lparr>database = school,
            sent =
              [\<lparr>status = 200,
                json = Page \<lparr>meta_total = Num 3, meta_page = Num 2, meta_totalPages = Num 2\<rparr>
                         [\<lparr>teacher_id = 3, teacher_name = ''Carol'',
                           teacher_department = ''Chemistry'', teacher_courses = None\<rparr>]\<rparr>],
            issued = [Count, FindAll opts]\<rparr>)
        \<and> fo_offset opts = Num 2 \<and> fo_limit opts = Num 2)"
proof -
  let ?q = "no_query\<lparr>query_limit := Some ''2'', query_page := Some ''2''\<rparr>"
  let ?req = "\<lparr>params_id = [], query = ?q, body = [] :: json_object\<rparr>"
  let ?w = "fresh school :: (json_object, teacher, store) world"
  let ?carol = "\<lparr>teacher_id = 3, teacher_name = ''Carol'', teacher_department = ''Chemistry'',
                 teacher_courses = None\<rparr>"
  have "signed_mathInt ''2'' = Some 2"
    by code_simp
  then have two: "parseInt ''2'' = Num 2"
    by (rule parseInt_safe) simp
  then have limit: "list_limit (query ?req) = Num 2" and page: "list_page (query ?req) = Num 2"
    by (simp_all add: list_limit_def list_page_def ToString_def or_default_def)
  have opts: "list_options (query ?req) =
      \<lparr>fo_limit = Num 2, fo_offset = Num 2, fo_order = [(''id'', ASC)], fo_include = []\<rparr>"
    using limit page
    by (simp add: list_options_def to_Number_safe list_sort_def list_populate_def
        list_include_def no_query_def)
  have count: "Teacher_count mem_gateway (database ?w) = Inr (Num 3)"
    by code_simp
  have rows: "Teacher_findAll mem_gateway (list_options (query ?req)) (database ?w) = Inr [?carol]"
    unfolding opts by code_simp
  have at_most: "\<forall>opts d rows l. Teacher_findAll mem_gateway opts d = Inr rows \<longrightarrow>
      fo_limit opts = Num l \<longrightarrow> 0 \<le> l \<longrightarrow> int (length rows) \<le> l"
    using mem_findAll_at_most by (simp add: mem_gateway_def)
  from page_arithmetic [where limit = 2 and n = 3 and page = 2, OF count rows at_most]
  obtain pages opts where
    run: "getAllTeachers mem_gateway ?req ?w =
        (Fulfilled,
         ?w\<lparr>sent := sent ?w @
              [\<lparr>status = 200,
                json = Page \<lparr>meta_total = Num 3, meta_page = list_page (query ?req),
                             meta_totalPages = pages\<rparr>
                         [?carol]\<rparr>],
            issued := issued ?w @ [Count, FindAll opts]\<rparr>)"
    and few: "list_limit (query ?req) = Num 2 \<and> (1::int) \<le> 2 \<longrightarrow> int (length [?carol]) \<le> 2"
    and pages: "Num 3 = Num 3 \<and> (0::int) \<le> 3 \<and> (3::int) \<le> 2 ^ 53
        \<and> list_limit (query ?req) = Num 2 \<and> (1::int) \<le> 2 \<and> (2::int) \<le> 2 ^ 53 \<longrightarrow>
        pages = Num \<lceil>real_of_int 3 / real_of_int 2\<rceil>"
    and offset: "list_page (query ?req) = Num 2 \<and> (1::int) \<le> 2
        \<and> list_limit (query ?req) = Num 2 \<and> (1::int) \<le> 2
        \<and> ((2::int) - 1) * 2 \<le> 2 ^ 53 \<longrightarrow>
        fo_offset opts = Num ((2 - 1) * 2)"
    and lim: "fo_limit opts = list_limit (query ?req)"
    by blast
  from pages limit have "pages = Num 2" by simp
  moreover from offset limit page have "fo_offset opts = Num 2" by simp
  ultimately show ?thesis
    using run lim limit page count by (simp add: fresh_def)
qed

text \<open>
  Beyond \<open>2 ^ 53\<close> the offset is the rounded product: for \<^verbatim>\<open>limit=94906267\<close> and
  \<^verbatim>\<open>page=94906268\<close> the exact product is 9007199515875289 and the offset passed to
  \<^verbatim>\<open>findAll\<close> is 9007199515875288.
\<close>

lemma offset_is_rounded:
  "fo_offset (list_options (no_query\<lparr>query_limit := Some ''94906267'',
                                      query_page := Some ''94906268''\<rparr>))
   = Num 9007199515875288"
proof -
  have "signed_mathInt ''94906267'' = Some 94906267"
    and "signed_mathInt ''94906268'' = Some 94906268"
    by code_simp+
  then have "parseInt ''94906267'' = Num 94906267" and "parseInt ''94906268'' = Num 94906268"
    by (simp_all add: parseInt_safe)
  then have "list_limit (no_query\<lparr>query_limit := Some ''94906267'',
                                   query_page := Some ''94906268''\<rparr>) = Num 94906267"
    and "list_page (no_query\<lparr>query_limit := Some ''94906267'',
                                query_page := Some ''94906268''\<rparr>) = Num 94906268"
    by (simp_all add: list_limit_def list_page_def ToString_def or_default_def)
  moreover have "js_minus (Num 94906268) (Num 1) = Num 94906267"
    by (simp add: to_Number_safe)
  ultimately show ?thesis
    by (simp only: list_options_def find_options.simps js_times_rounds)
qed

subsection \<open>List: sort\<close>

text \<open>
  C5. For every List request, the \<^verbatim>\<open>findAll\<close> the handler issues orders by \<open>id\<close>,
  descending exactly when the \<open>sort\<close> parameter is the string \<^verbatim>\<open>desc\<close> (compared
  with \<^verbatim>\<open>===\<close>, so case-sensitively); any other value, and a missing one, gives
  ascending.
\<close>

theorem sort_selects_direction:
  "fo_order (list_options (query req)) =
     [(''id'', if query_sort (query req) = Some ''desc'' then DESC else ASC)]
   \<and> (Teacher_count db (database w) = Inr n \<longrightarrow>
        issued (snd (getAllTeachers db req w))
        = issued w @ [Count, FindAll (list_options (query req))])"
  using getAllTeachers_issues [of db w n req]
  by (simp add: list_options_def list_sort_def)

theorem sort_selects_direction_witness:
  "Teacher_count mem_gateway school = Inr (Num 3)
   \<and> fo_order (list_options (no_query\<lparr>query_sort := Some ''desc''\<rparr>)) = [(''id'', DESC)]
   \<and> fo_order (list_options (no_query\<lparr>query_sort := Some ''DESC''\<rparr>)) = [(''id'', ASC)]
   \<and> fo_order (list_options no_query) = [(''id'', ASC)]
   \<and> issued (snd (getAllTeachers mem_gateway
        \<lparr>params_id = [], query = no_query\<lparr>query_sort := Some ''desc''\<rparr>, body = []\<rparr>
        (fresh school)))
      = [Count, FindAll (list_options (no_query\<lparr>query_sort := Some ''desc''\<rparr>))]"
proof -
  have count: "Teacher_count mem_gateway school = Inr (Num 3)"
    by code_simp
  have differ: "''DESC'' \<noteq> ''desc''"
    by simp
  have absent: "query_sort no_query = None"
    by (simp add: no_query_def)
  show ?thesis
    using count differ absent
      sort_selects_direction
        [of "\<lparr>params_id = [], query = no_query\<lparr>query_sort := Some ''desc''\<rparr>, body = []\<rparr>"
          mem_gateway "fresh school" "Num 3"]
      sort_selects_direction
        [of "\<lparr>params_id = [], query = no_query\<lparr>query_sort := Some ''DESC''\<rparr>, body = []\<rparr>"
          mem_gateway "fresh school" "Num 3"]
      sort_selects_direction
        [of "\<lparr>params_id = [], query = no_query, body = []\<rparr>" mem_gateway "fresh school" "Num 3"]
    by (simp add: fresh_def)
qed

subsection \<open>List: populate\<close>

text \<open>
  C6. For every List request, the \<open>include\<close> option of the \<^verbatim>\<open>findAll\<close> the handler
  issues has one Course entry for each comma-separated token of \<open>populate\<close> that is
  \<^verbatim>\<open>course\<close> up to case, and nothing for any other token; a missing or empty
  \<open>populate\<close> gives an empty \<open>include\<close>.
\<close>

theorem populate_tokens:
  "fo_include (list_options (query req)) =
     (case query_populate (query req) of
        None \<Rightarrow> []
      | Some s \<Rightarrow>
          map (\<lambda>token. Course)
            (filter (\<lambda>token. toLowerCase token = ''course'') (split (CHR '','') s)))
   \<and> (Teacher_count db (database w) = Inr n \<longrightarrow>
        issued (snd (getAllTeachers db req w))
        = issued w @ [Count, FindAll (list_options (query req))])"
proof -
  have "list_include [] = []"
    by (simp add: list_include_def)
  moreover have "split (CHR '','') [] = [[]]" and "toLowerCase [] \<noteq> ''course''"
    by (simp_all add: toLowerCase_def)
  ultimately show ?thesis
    using list_include_tokens getAllTeachers_issues [of db w n req]
    by (simp add: list_options_def list_populate_def split: option.split)
qed

theorem populate_tokens_witness:
  "Teacher_count mem_gateway school = Inr (Num 3)
   \<and> fo_include (list_options (no_query\<lparr>query_populate := Some ''x,COURSE, course,Course''\<rparr>))
      = [Course, Course]
   \<and> fo_include (list_options (no_query\<lparr>query_populate := Some ''''\<rparr>)) = []
   \<and> fo_include (list_options no_query) = []
   \<and> issued (snd (getAllTeachers mem_gateway
        \<lparr>params_id = [], query = no_query\<lparr>query_populate := Some ''x,COURSE, course,Course''\<rparr>,
         body = []\<rparr>
        (fresh school)))
      = [Count, FindAll (list_options (no_query\<lparr>query_populate := Some ''x,COURSE, course,Course''\<rparr>))]"
proof -
  have count: "Teacher_count mem_gateway school = Inr (Num 3)"
    by code_simp
  have tokens: "map (\<lambda>token. Course)
      (filter (\<lambda>token. toLowerCase token = ''course'')
         (split (CHR '','') ''x,COURSE, course,Course'')) = [Course, Course]"
    by code_simp
  have none: "map (\<lambda>token. Course)
      (filter (\<lambda>token. toLowerCase token = ''course'') (split (CHR '','') [])) = []"
    by code_simp
  have absent: "query_populate no_query = None"
    by (simp add: no_query_def)
  show ?thesis
    using count tokens none absent
      populate_tokens
        [of "\<lparr>params_id = [],
              query = no_query\<lparr>query_populate := Some ''x,COURSE, course,Course''\<rparr>, body = []\<rparr>"
          mem_gateway "fresh school" "Num 3"]
      populate_tokens
        [of "\<lparr>params_id = [], query = no_query\<lparr>query_populate := Some ''''\<rparr>, body = []\<rparr>"
          mem_gateway "fresh school" "Num 3"]
      populate_tokens
        [of "\<lparr>params_id = [], query = no_query, body = []\<rparr>" mem_gateway "fresh school" "Num 3"]
    by (simp add: fresh_def)
qed

subsection \<open>Create\<close>

text \<open>
  C7. For every Create request the handler issues one gateway call, \<^verbatim>\<open>create\<close> with
  the request body as it came (the body's type is a parameter of the handler, which
  cannot look into it); when the gateway returns the created entity the handler
  responds 201 with that entity, and when the gateway throws it responds 500 with
  \<^verbatim>\<open>{ error: message }\<close>.
\<close>

theorem createTeacher_delegates:
  "(Teacher_create db (body req) (database w) = (Inr teacher, d) \<longrightarrow>
      createTeacher db req w =
        (Fulfilled,
         \<lparr>database = d,
          sent = sent w @ [\<lparr>status = 201, json = Entity teacher\<rparr>],
          issued = issued w @ [Create (body req)]\<rparr>))
   \<and> (Teacher_create db (body req) (database w) = (Inl err, d) \<longrightarrow>
      createTeacher db req w =
        (Fulfilled,
         \<lparr>database = d,
          sent = sent w @ [\<lparr>status = 500, json = Error_body (message err)\<rparr>],
          issued = issued w @ [Create (body req)]\<rparr>))"
  by (simp add: createTeacher_def await_defs)

theorem createTeacher_delegates_witness:
  "createTeacher mem_gateway
     \<lparr>params_id = [], query = no_query,
      body = [(''name'', ''Alice''), (''department'', ''Math''), (''admin'', ''yes'')]\<rparr>
     (fresh empty_store) =
     (Fulfilled,
      \<lparr>database =
         \<lparr>teacher_rows =
            [\<lparr>teacher_id = 1, teacher_name = ''Alice'', teacher_department = ''Math'',
              teacher_courses = None\<rparr>],
          next_id = 2, course_rows = []\<rparr>,
       sent =
         [\<lparr>status = 201,
           json = Entity \<lparr>teacher_id = 1, teacher_name = ''Alice'',
                          teacher_department = ''Math'', teacher_courses = None\<rparr>\<rparr>],
       issued =
         [Create [(''name'', ''Alice''), (''department'', ''Math''), (''admin'', ''yes'')]]\<rparr>)
   \<and> createTeacher mem_gateway
     \<lparr>params_id = [], query = no_query, body = [(''name'', ''Alice'')]\<rparr> (fresh empty_store) =
     (Fulfilled,
      \<lparr>database = empty_store,
       sent = [\<lparr>status = 500, json = Error_body ''notNull Violation''\<rparr>],
       issued = [Create [(''name'', ''Alice'')]]\<rparr>)"
proof -
  have created:
    "Teacher_create mem_gateway
       [(''name'', ''Alice''), (''department'', ''Math''), (''admin'', ''yes'')] empty_store =
     (Inr \<lparr>teacher_id = 1, teacher_name = ''Alice'', teacher_department = ''Math'',
           teacher_courses = None\<rparr>,
      \<lparr>teacher_rows =
         [\<lparr>teacher_id = 1, teacher_name = ''Alice'', teacher_department = ''Math'',
           teacher_courses = None\<rparr>],
       next_id = 2, course_rows = []\<rparr>)"
    by code_simp
  have refused:
    "Teacher_create mem_gateway [(''name'', ''Alice'')] empty_store =
     (Inl (Error ''notNull Violation''), empty_store)"
    by code_simp
  show ?thesis
    using created refused
      createTeacher_delegates
        [of mem_gateway
          "\<lparr>params_id = [], query = no_query,
            body = [(''name'', ''Alice''), (''department'', ''Math''), (''admin'', ''yes'')]\<rparr>"
          "fresh empty_store"]
      createTeacher_delegates
        [of mem_gateway "\<lparr>params_id = [], query = no_query, body = [(''name'', ''Alice'')]\<rparr>"
          "fresh empty_store"]
    by (simp add: fresh_def)
qed

subsection \<open>A key with no record\<close>

text \<open>
  C3. For every Get-by-id, Update or Delete request whose \<^verbatim>\<open>findByPk\<close> returns
  \<^verbatim>\<open>null\<close>, the handler writes exactly one response: status 404 (not 500) with
  \<^verbatim>\<open>{ message: 'Not found' }\<close>.
\<close>

theorem missing_record_is_404:
  "(Teacher_findByPk db (params_id req) (Some Course) (database w) = Inr None \<longrightarrow>
      getTeacherById db req w =
        (Fulfilled,
         w\<lparr>sent := sent w @ [\<lparr>status = 404, json = Message_body ''Not found''\<rparr>],
           issued := issued w @ [FindByPk (params_id req) (Some Course)]\<rparr>))
   \<and> (Teacher_findByPk db (params_id req) None (database w) = Inr None \<longrightarrow>
      updateTeacher db req w =
        (Fulfilled,
         w\<lparr>sent := sent w @ [\<lparr>status = 404, json = Message_body ''Not found''\<rparr>],
           issued := issued w @ [FindByPk (params_id req) None]\<rparr>)
      \<and> deleteTeacher db req w =
        (Fulfilled,
         w\<lparr>sent := sent w @ [\<lparr>status = 404, json = Message_body ''Not found''\<rparr>],
           issued := issued w @ [FindByPk (params_id req) None]\<rparr>))"
  by (simp add: getTeacherById_def updateTeacher_def deleteTeacher_def await_defs)

theorem missing_record_is_404_witness:
  "Teacher_findByPk mem_gateway ''7'' (Some Course) school = Inr None
   \<and> Teacher_findByPk mem_gateway ''7'' None school = Inr None
   \<and> getTeacherById mem_gateway \<lparr>params_id = ''7'', query = no_query, body = []\<rparr> (fresh school) =
        (Fulfilled,
         \<lparr>database = school,
          sent = [\<lparr>status = 404, json = Message_body ''Not found''\<rparr>],
          issued = [FindByPk ''7'' (Some Course)]\<rparr>)
   \<and> updateTeacher mem_gateway \<lparr>params_id = ''7'', query = no_query, body = []\<rparr> (fresh school) =
        (Fulfilled,
         \<lparr>database = school,
          sent = [\<lparr>status = 404, json = Message_body ''Not found''\<rparr>],
          issued = [FindByPk ''7'' None]\<rparr>)
   \<and> deleteTeacher mem_gateway \<lparr>params_id = ''7'', query = no_query, body = []\<rparr> (fresh school) =
        (Fulfilled,
         \<lparr>database = school,
          sent = [\<lparr>status = 404, json = Message_body ''Not found''\<rparr>],
          issued = [FindByPk ''7'' None]\<rparr>)"
proof -
  have absent: "Teacher_findByPk mem_gateway ''7'' (Some Course) school = Inr None"
    "Teacher_findByPk mem_gateway ''7'' None school = Inr None"
    by code_simp+
  then show ?thesis
    using missing_record_is_404
      [of mem_gateway "\<lparr>params_id = ''7'', query = no_query, body = []\<rparr>" "fresh school"]
    by (simp add: fresh_def)
qed

text \<open>
  C10. For every Update or Delete request whose \<^verbatim>\<open>findByPk\<close> returns \<^verbatim>\<open>null\<close>,
  the lookup is the only gateway call the handler issues (no \<^verbatim>\<open>update\<close>, no
  \<^verbatim>\<open>destroy\<close>) and the database is the one the request found.
\<close>

theorem not_found_leaves_database:
  "Teacher_findByPk db (params_id req) None (database w) = Inr None \<Longrightarrow>
   database (snd (updateTeacher db req w)) = database w
   \<and> issued (snd (updateTeacher db req w)) = issued w @ [FindByPk (params_id req) None]
   \<and> database (snd (deleteTeacher db req w)) = database w
   \<and> issued (snd (deleteTeacher db req w)) = issued w @ [FindByPk (params_id req) None]"
  by (simp add: updateTeacher_def deleteTeacher_def await_defs)

theorem not_found_leaves_database_witness:
  "Teacher_findByPk mem_gateway ''7'' None school = Inr None
   \<and> database (snd (updateTeacher mem_gateway
        \<lparr>params_id = ''7'', query = no_query, body = [(''name'', ''Dave'')]\<rparr> (fresh school))) = school
   \<and> issued (snd (updateTeacher mem_gateway
        \<lparr>params_id = ''7'', query = no_query, body = [(''name'', ''Dave'')]\<rparr> (fresh school)))
      = [FindByPk ''7'' None]
   \<and> database (snd (deleteTeacher mem_gateway
        \<lparr>params_id = ''7'', query = no_query, body = [(''name'', ''Dave'')]\<rparr> (fresh school))) = school
   \<and> issued (snd (deleteTeacher mem_gateway
        \<lparr>params_id = ''7'', query = no_query, body = [(''name'', ''Dave'')]\<rparr> (fresh school)))
      = [FindByPk ''7'' None]"
proof -
  have absent: "Teacher_findByPk mem_gateway ''7'' None school = Inr None"
    by code_simp
  then show ?thesis
    using not_found_leaves_database
      [of mem_gateway "\<lparr>params_id = ''7'', query = no_query, body = [(''name'', ''Dave'')]\<rparr>"
        "fresh school"]
    by (simp add: fresh_def)
qed

subsection \<open>Found records: what the handlers pass on\<close>

text \<open>
  For any gateway: a record that is found is answered with 200 by Get-by-id; Update
  passes the found instance and the body as it came to \<^verbatim>\<open>update\<close>, Delete passes the
  found instance to \<^verbatim>\<open>destroy\<close>, and an error of either is answered with 500.
\<close>

lemma getTeacherById_found:
  "Teacher_findByPk db (params_id req) (Some Course) (database w) = Inr (Some teacher) \<Longrightarrow>
   getTeacherById db req w =
     (Fulfilled,
      w\<lparr>sent := sent w @ [\<lparr>status = 200, json = Entity teacher\<rparr>],
        issued := issued w @ [FindByPk (params_id req) (Some Course)]\<rparr>)"
  by (simp add: getTeacherById_def await_defs)

lemma updateTeacher_found:
  assumes "Teacher_findByPk db (params_id req) None (database w) = Inr (Some teacher)"
    and "teacher_update db teacher (body req) (database w) = (r, d)"
  shows "updateTeacher db req w =
     (Fulfilled,
      \<lparr>database = d,
       sent = sent w @
         [case r of
            Inr teacher' \<Rightarrow> \<lparr>status = 200, json = Entity teacher'\<rparr>
          | Inl err \<Rightarrow> \<lparr>status = 500, json = Error_body (message err)\<rparr>],
       issued = issued w @ [FindByPk (params_id req) None, Update teacher (body req)]\<rparr>)"
  using assms by (cases r) (simp_all add: updateTeacher_def await_defs)

lemma deleteTeacher_found:
  assumes "Teacher_findByPk db (params_id req) None (database w) = Inr (Some teacher)"
    and "teacher_destroy db teacher (database w) = (r, d)"
  shows "deleteTeacher db req w =
     (Fulfilled,
      \<lparr>database = d,
       sent = sent w @
         [case r of
            Inr u \<Rightarrow> \<lparr>status = 200, json = Message_body ''Deleted''\<rparr>
          | Inl err \<Rightarrow> \<lparr>status = 500, json = Error_body (message err)\<rparr>],
       issued = issued w @ [FindByPk (params_id req) None, Destroy teacher]\<rparr>)"
  using assms by (cases r) (simp_all add: deleteTeacher_def await_defs)

lemma lookup_error_is_500:
  "(Teacher_findByPk db (params_id req) (Some Course) (database w) = Inl err \<longrightarrow>
      sent (snd (getTeacherById db req w))
      = sent w @ [\<lparr>status = 500, json = Error_body (message err)\<rparr>])
   \<and> (Teacher_findByPk db (params_id req) None (database w) = Inl err \<longrightarrow>
      sent (snd (updateTeacher db req w))
      = sent w @ [\<lparr>status = 500, json = Error_body (message err)\<rparr>]
      \<and> sent (snd (deleteTeacher db req w))
      = sent w @ [\<lparr>status = 500, json = Error_body (message err)\<rparr>])"
  by (simp add: getTeacherById_def updateTeacher_def deleteTeacher_def await_defs)

subsection \<open>Update\<close>

text \<open>
  C8. On the in-memory gateway, for every Update request on an existing Teacher: the
  handler responds 200 with the entity in which a supplied \<open>name\<close> or \<open>department\<close>
  has replaced the field and every omitted field is as before; the stored row becomes
  that entity, the other rows and tables are as before; with an empty body the entity
  and the database are unchanged.
\<close>

theorem update_merges_supplied_fields:
  assumes "Teacher_findByPk mem_gateway (params_id req) None (database w) = Inr (Some teacher)"
  shows "\<exists>teacher' w'.
           updateTeacher mem_gateway req w = (Fulfilled, w')
           \<and> sent w' = sent w @ [\<lparr>status = 200, json = Entity teacher'\<rparr>]
           \<and> teacher_id teacher' = teacher_id teacher
           \<and> teacher_name teacher' =
               (case map_of (body req) ''name'' of None \<Rightarrow> teacher_name teacher | Some v \<Rightarrow> v)
           \<and> teacher_department teacher' =
               (case map_of (body req) ''department'' of
                  None \<Rightarrow> teacher_department teacher | Some v \<Rightarrow> v)
           \<and> teacher_courses teacher' = teacher_courses teacher
           \<and> find (\<lambda>r. teacher_id r = teacher_id teacher) (teacher_rows (database w'))
               = Some teacher'
           \<and> filter (\<lambda>r. teacher_id r \<noteq> teacher_id teacher) (teacher_rows (database w'))
               = filter (\<lambda>r. teacher_id r \<noteq> teacher_id teacher) (teacher_rows (database w))
           \<and> next_id (database w') = next_id (database w)
           \<and> course_rows (database w') = course_rows (database w)
           \<and> (body req = [] \<longrightarrow> teacher' = teacher \<and> database w' = database w)"
proof -
  let ?f = "\<lambda>r. if teacher_id r = teacher_id teacher then merge_fields (body req) r else r"
  let ?d = "(database w)\<lparr>teacher_rows := map ?f (teacher_rows (database w))\<rparr>"
  let ?t = "merge_fields (body req) teacher"
  let ?w = "w\<lparr>database := ?d,
              sent := sent w @ [\<lparr>status = 200, json = Entity ?t\<rparr>],
              issued := issued w @ [FindByPk (params_id req) None, Update teacher (body req)]\<rparr>"
  from assms have found: "mem_findByPk (params_id req) None (database w) = Inr (Some teacher)"
    by (simp add: mem_gateway_def)
  then have run: "updateTeacher mem_gateway req w = (Fulfilled, ?w)"
    by (simp add: updateTeacher_def await_defs mem_gateway_def mem_update_def)
  have keep: "teacher_id (?f r) = teacher_id r" for r
    by (simp add: merge_fields_id)
  from mem_findByPk_found [OF found]
  have row: "find (\<lambda>r. teacher_id r = teacher_id teacher) (teacher_rows (database w)) = Some teacher"
    by simp
  have stored: "find (\<lambda>r. teacher_id r = teacher_id teacher) (teacher_rows (database ?w)) = Some ?t"
    using find_map_same_key [of teacher_id ?f "teacher_id teacher" "teacher_rows (database w)", OF keep]
      row
    by simp
  have others: "filter (\<lambda>r. teacher_id r \<noteq> teacher_id teacher) (teacher_rows (database ?w))
      = filter (\<lambda>r. teacher_id r \<noteq> teacher_id teacher) (teacher_rows (database w))"
    using filter_others_map [of teacher_id "merge_fields (body req)" "teacher_id teacher"]
    by (simp add: merge_fields_id)
  have empty: "body req = [] \<longrightarrow> ?t = teacher \<and> database ?w = database w"
  proof
    assume "body req = []"
    then have same: "merge_fields (body req) = (\<lambda>r. r)"
      by (intro ext) (simp add: merge_fields_nothing)
    then have "?f = (\<lambda>r. r)"
      by (intro ext) simp
    with same show "?t = teacher \<and> database ?w = database w"
      by simp
  qed
  have "sent ?w = sent w @ [\<lparr>status = 200, json = Entity ?t\<rparr>]"
    and "teacher_id ?t = teacher_id teacher"
    and "teacher_name ?t =
          (case map_of (body req) ''name'' of None \<Rightarrow> teacher_name teacher | Some v \<Rightarrow> v)"
    and "teacher_department ?t =
          (case map_of (body req) ''department'' of
             None \<Rightarrow> teacher_department teacher | Some v \<Rightarrow> v)"
    and "teacher_courses ?t = teacher_courses teacher"
    and "next_id (database ?w) = next_id (database w)"
    and "course_rows (database ?w) = course_rows (database w)"
    by (simp_all add: merge_fields_def)
  with run stored others empty show ?thesis by blast
qed

theorem update_merges_supplied_fields_witness:
  "Teacher_findByPk mem_gateway ''1'' None school =
     Inr (Some \<lparr>teacher_id = 1, teacher_name = ''Alice'', teacher_department = ''Math'',
                teacher_courses = None\<rparr>)
   \<and> (\<exists>teacher' w'.
         updateTeacher mem_gateway
           \<lparr>params_id = ''1'', query = no_query, body = [(''department'', ''Physics'')]\<rparr>
           (fresh school) = (Fulfilled, w')
         \<and> sent w' = [\<lparr>status = 200, json = Entity teacher'\<rparr>]
         \<and> teacher' = \<lparr>teacher_id = 1, teacher_name = ''Alice'',
                        teacher_department = ''Physics'', teacher_courses = None\<rparr>
         \<and> find (\<lambda>r. teacher_id r = 1) (teacher_rows (database w')) = Some teacher')
   \<and> (\<exists>w'.
         updateTeacher mem_gateway \<lparr>params_id = ''1'', query = no_query, body = []\<rparr>
           (fresh school) = (Fulfilled, w')
         \<and> sent w' =
             [\<lparr>status = 200,
               json = Entity \<lparr>teacher_id = 1, teacher_name = ''Alice'',
                              teacher_department = ''Math'', teacher_courses = None\<rparr>\<rparr>]
         \<and> database w' = school)"
proof -
  let ?alice = "\<lparr>teacher_id = 1, teacher_name = ''Alice'', teacher_department = ''Math'',
                 teacher_courses = None\<rparr>"
  let ?put = "\<lparr>params_id = ''1'', query = no_query, body = [(''department'', ''Physics'')]\<rparr>"
  let ?put_nothing = "\<lparr>params_id = ''1'', query = no_query, body = [] :: json_object\<rparr>"
  let ?w = "fresh school :: (json_object, teacher, store) world"
  have found: "Teacher_findByPk mem_gateway ''1'' None school = Inr (Some ?alice)"
    by code_simp
  then have found1: "Teacher_findByPk mem_gateway (params_id ?put) None (database ?w)
      = Inr (Some ?alice)"
    and found2: "Teacher_findByPk mem_gateway (params_id ?put_nothing) None (database ?w)
      = Inr (Some ?alice)"
    by (simp_all add: fresh_def)
  from update_merges_supplied_fields [OF found1] obtain t1 w1 where
    "updateTeacher mem_gateway ?put ?w = (Fulfilled, w1)"
    "sent w1 = sent ?w @ [\<lparr>status = 200, json = Entity t1\<rparr>]"
    "teacher_id t1 = teacher_id ?alice"
    "teacher_name t1 =
       (case map_of (body ?put) ''name'' of None \<Rightarrow> teacher_name ?alice | Some v \<Rightarrow> v)"
    "teacher_department t1 =
       (case map_of (body ?put) ''department'' of
          None \<Rightarrow> teacher_department ?alice | Some v \<Rightarrow> v)"
    "teacher_courses t1 = teacher_courses ?alice"
    "find (\<lambda>r. teacher_id r = teacher_id ?alice) (teacher_rows (database w1)) = Some t1"
    by blast
  then have first: "\<exists>teacher' w'.
         updateTeacher mem_gateway ?put (fresh school) = (Fulfilled, w')
         \<and> sent w' = [\<lparr>status = 200, json = Entity teacher'\<rparr>]
         \<and> teacher' = \<lparr>teacher_id = 1, teacher_name = ''Alice'',
                        teacher_department = ''Physics'', teacher_courses = None\<rparr>
         \<and> find (\<lambda>r. teacher_id r = 1) (teacher_rows (database w')) = Some teacher'"
    by (intro exI [of _ t1] exI [of _ w1]) (simp add: fresh_def)
  from update_merges_supplied_fields [OF found2] obtain t2 w2 where
    "updateTeacher mem_gateway ?put_nothing ?w = (Fulfilled, w2)"
    "sent w2 = sent ?w @ [\<lparr>status = 200, json = Entity t2\<rparr>]"
    "body ?put_nothing = [] \<longrightarrow> t2 = ?alice \<and> database w2 = database ?w"
    by blast
  then have second: "\<exists>w'.
         updateTeacher mem_gateway ?put_nothing (fresh school) = (Fulfilled, w')
         \<and> sent w' = [\<lparr>status = 200, json = Entity ?alice\<rparr>]
         \<and> database w' = school"
    by (intro exI [of _ w2]) (simp add: fresh_def)
  from found first second show ?thesis by blast
qed

subsection \<open>Delete\<close>

text \<open>
  C9. On the in-memory gateway, for every Delete request on an existing Teacher: the
  handler responds 200 with \<^verbatim>\<open>{ message: 'Deleted' }\<close>, the row is removed and no later
  lookup of the key finds it; a second Delete of the same key, run on the world the
  first one left, responds 404 with \<^verbatim>\<open>{ message: 'Not found' }\<close>.
\<close>

theorem delete_then_not_found:
  assumes "Teacher_findByPk mem_gateway (params_id req) None (database w) = Inr (Some teacher)"
  shows "\<exists>w1.
           deleteTeacher mem_gateway req w = (Fulfilled, w1)
           \<and> sent w1 = sent w @ [\<lparr>status = 200, json = Message_body ''Deleted''\<rparr>]
           \<and> database w1 =
               (database w)\<lparr>teacher_rows :=
                 filter (\<lambda>r. teacher_id r \<noteq> teacher_id teacher) (teacher_rows (database w))\<rparr>
           \<and> Teacher_findByPk mem_gateway (params_id req) None (database w1) = Inr None
           \<and> Teacher_findByPk mem_gateway (params_id req) (Some Course) (database w1) = Inr None
           \<and> deleteTeacher mem_gateway req w1 =
               (Fulfilled,
                w1\<lparr>sent := sent w1 @ [\<lparr>status = 404, json = Message_body ''Not found''\<rparr>],
                   issued := issued w1 @ [FindByPk (params_id req) None]\<rparr>)"
proof -
  let ?d = "(database w)\<lparr>teacher_rows :=
              filter (\<lambda>r. teacher_id r \<noteq> teacher_id teacher) (teacher_rows (database w))\<rparr>"
  let ?w1 = "w\<lparr>database := ?d,
               sent := sent w @ [\<lparr>status = 200, json = Message_body ''Deleted''\<rparr>],
               issued := issued w @ [FindByPk (params_id req) None, Destroy teacher]\<rparr>"
  from assms have found: "mem_findByPk (params_id req) None (database w) = Inr (Some teacher)"
    by (simp add: mem_gateway_def)
  then have first: "deleteTeacher mem_gateway req w = (Fulfilled, ?w1)"
    by (simp add: deleteTeacher_def await_defs mem_gateway_def mem_destroy_def)
  from mem_findByPk_found [OF found] have key: "key_of (params_id req) = Some (teacher_id teacher)"
    by simp
  have gone: "mem_findByPk (params_id req) inc ?d = Inr None" for inc
    by (rule mem_findByPk_after_destroy [OF key])
  then have second: "deleteTeacher mem_gateway req ?w1 =
      (Fulfilled,
       ?w1\<lparr>sent := sent ?w1 @ [\<lparr>status = 404, json = Message_body ''Not found''\<rparr>],
           issued := issued ?w1 @ [FindByPk (params_id req) None]\<rparr>)"
    by (simp add: deleteTeacher_def await_defs mem_gateway_def)
  have "sent ?w1 = sent w @ [\<lparr>status = 200, json = Message_body ''Deleted''\<rparr>]"
    and "database ?w1 = ?d"
    and "Teacher_findByPk mem_gateway (params_id req) None (database ?w1) = Inr None"
    and "Teacher_findByPk mem_gateway (params_id req) (Some Course) (database ?w1) = Inr None"
    using gone by (simp_all add: mem_gateway_def)
  with first second show ?thesis by blast
qed

theorem delete_then_not_found_witness:
  "Teacher_findByPk mem_gateway ''2'' None school =
     Inr (Some \<lparr>teacher_id = 2, teacher_name = ''Bob'', teacher_department = ''Physics'',
                teacher_courses = None\<rparr>)
   \<and> (\<exists>w1.
         deleteTeacher mem_gateway \<lparr>params_id = ''2'', query = no_query, body = []\<rparr> (fresh school)
           = (Fulfilled, w1)
         \<and> sent w1 = [\<lparr>status = 200, json = Message_body ''Deleted''\<rparr>]
         \<and> teacher_rows (database w1) =
             [\<lparr>teacher_id = 1, teacher_name = ''Alice'', teacher_department = ''Math'',
               teacher_courses = None\<rparr>,
              \<lparr>teacher_id = 3, teacher_name = ''Carol'', teacher_department = ''Chemistry'',
               teacher_courses = None\<rparr>]
         \<and> deleteTeacher mem_gateway \<lparr>params_id = ''2'', query = no_query, body = []\<rparr> w1 =
             (Fulfilled,
              w1\<lparr>sent := [\<lparr>status = 200, json = Message_body ''Deleted''\<rparr>,
                           \<lparr>status = 404, json = Message_body ''Not found''\<rparr>],
                 issued := issued w1 @ [FindByPk ''2'' None]\<rparr>))"
proof -
  let ?bob = "\<lparr>teacher_id = 2, teacher_name = ''Bob'', teacher_department = ''Physics'',
               teacher_courses = None\<rparr>"
  let ?req = "\<lparr>params_id = ''2'', query = no_query, body = [] :: json_object\<rparr>"
  let ?w = "fresh school :: (json_object, teacher, store) world"
  have found: "Teacher_findByPk mem_gateway (params_id ?req) None (database ?w) = Inr (Some ?bob)"
    by code_simp
  have rows: "filter (\<lambda>r. teacher_id r \<noteq> teacher_id ?bob) (teacher_rows (database ?w)) =
      [\<lparr>teacher_id = 1, teacher_name = ''Alice'', teacher_department = ''Math'',
        teacher_courses = None\<rparr>,
       \<lparr>teacher_id = 3, teacher_name = ''Carol'', teacher_department = ''Chemistry'',
        teacher_courses = None\<rparr>]"
    by code_simp
  from delete_then_not_found [OF found] obtain w1 where
    "deleteTeacher mem_gateway ?req ?w = (Fulfilled, w1)"
    "sent w1 = sent ?w @ [\<lparr>status = 200, json = Message_body ''Deleted''\<rparr>]"
    "database w1 =
       (database ?w)\<lparr>teacher_rows :=
          filter (\<lambda>r. teacher_id r \<noteq> teacher_id ?bob) (teacher_rows (database ?w))\<rparr>"
    "deleteTeacher mem_gateway ?req w1 =
       (Fulfilled,
        w1\<lparr>sent := sent w1 @ [\<lparr>status = 404, json = Message_body ''Not found''\<rparr>],
           issued := issued w1 @ [FindByPk (params_id ?req) None]\<rparr>)"
    by blast
  with found rows show ?thesis by (simp add: fresh_def)
qed

end
